theory Spec2Isabelle
  imports Main "HOL-Library.Char_ord" "HOL-Library.List_Lexorder"
begin

section \<open>Two static-file servers built on http.server\<close>

text \<open>
  The repository holds two scripts, \<^verbatim>\<open>unused-files/root-files/simple-server.py\<close> and
  \<^verbatim>\<open>unused-files/scripts/server.py\<close>. Each subclasses
  \<^verbatim>\<open>http.server.SimpleHTTPRequestHandler\<close>, overrides a few methods and runs a
  \<^verbatim>\<open>socketserver.TCPServer\<close> on port 8080. A handler object is the overriding methods of
  the script together with every method it inherits, so the embedding has two layers:
  the methods and module-level statements the scripts define (the functions named after
  \<^verbatim>\<open>CORSRequestHandler\<close> and \<^verbatim>\<open>CustomHTTPRequestHandler\<close>, \<open>mimetypes_db\<close>, and the
  section "The scripts"), and the inherited methods of CPython 3.11's \<^verbatim>\<open>http.server\<close>,
  \<^verbatim>\<open>posixpath\<close>, \<^verbatim>\<open>mimetypes\<close> and \<^verbatim>\<open>socketserver\<close> that they call or that
  call them. Strings are lists of 8-bit characters, read as code points below 256 (the
  request line is decoded as ISO-8859-1); paths follow \<^verbatim>\<open>posixpath\<close>.
\<close>

subsection \<open>Python strings\<close>

definition dquote :: char where
  "dquote = CHR 0x22"

definition newline :: char where
  "newline = CHR 0x0A"

definition digit_char :: "nat \<Rightarrow> char" where
  "digit_char n = char_of (48 + n)"

text \<open>\<^verbatim>\<open>str(n)\<close> and \<^verbatim>\<open>"%d" % n\<close> for a natural number.\<close>

function str_nat :: "nat \<Rightarrow> string" where
  "str_nat n = (if n < 10 then [digit_char n] else str_nat (n div 10) @ [digit_char (n mod 10)])"
  by pat_completeness auto
termination
  by (relation "measure id") auto

declare str_nat.simps [simp del]

definition startswith :: "string \<Rightarrow> string \<Rightarrow> bool" where
  "startswith s t = (take (length t) s = t)"

definition endswith :: "string \<Rightarrow> string \<Rightarrow> bool" where
  "endswith s t = (length t \<le> length s \<and> drop (length s - length t) s = t)"

text \<open>\<^verbatim>\<open>str.isspace\<close> on the code points below 256.\<close>

definition isspace :: "char \<Rightarrow> bool" where
  "isspace c = (let n = (of_char c :: nat) in
     (9 \<le> n \<and> n \<le> 13) \<or> (28 \<le> n \<and> n \<le> 32) \<or> n = 133 \<or> n = 160)"

text \<open>\<^verbatim>\<open>str.isdigit\<close> on the code points below 256: the ASCII digits and the
  superscripts two, three and one, which \<^verbatim>\<open>int()\<close> refuses.\<close>

definition isdigit :: "char \<Rightarrow> bool" where
  "isdigit c = (let n = (of_char c :: nat) in
     (48 \<le> n \<and> n \<le> 57) \<or> n = 178 \<or> n = 179 \<or> n = 185)"

definition str_isdigit :: "string \<Rightarrow> bool" where
  "str_isdigit s = (s \<noteq> [] \<and> list_all isdigit s)"

definition ascii_digit :: "char \<Rightarrow> bool" where
  "ascii_digit c = (48 \<le> (of_char c :: nat) \<and> (of_char c :: nat) \<le> 57)"

text \<open>\<^verbatim>\<open>int(s)\<close> for a string that passed \<^verbatim>\<open>isdigit\<close>: \<open>None\<close> is ValueError.\<close>

definition int_str :: "string \<Rightarrow> nat option" where
  "int_str s = (if s \<noteq> [] \<and> list_all ascii_digit s
     then Some (foldl (\<lambda>a c. 10 * a + (of_char c - 48)) 0 s) else None)"

text \<open>\<^verbatim>\<open>str.lower\<close> on the code points below 256.\<close>

definition lower_char :: "char \<Rightarrow> char" where
  "lower_char c = (let n = (of_char c :: nat) in
     if (65 \<le> n \<and> n \<le> 90) \<or> (192 \<le> n \<and> n \<le> 222 \<and> n \<noteq> 215) then char_of (n + 32) else c)"

definition lower :: "string \<Rightarrow> string" where
  "lower s = map lower_char s"

text \<open>\<^verbatim>\<open>s.split(c)\<close> for a one-character separator.\<close>

fun split_on :: "char \<Rightarrow> string \<Rightarrow> string list" where
  "split_on c [] = [[]]"
| "split_on c (x # xs) =
     (if x = c then [] # split_on c xs
      else (case split_on c xs of [] \<Rightarrow> [[x]] | w # ws \<Rightarrow> (x # w) # ws))"

text \<open>\<^verbatim>\<open>s.split(c, 1)[0]\<close> and \<^verbatim>\<open>s.split(c, 1)[1]\<close> (the latter where \<open>c\<close> occurs).\<close>

definition before_first :: "char \<Rightarrow> string \<Rightarrow> string" where
  "before_first c s = takeWhile (\<lambda>x. x \<noteq> c) s"

definition after_first :: "char \<Rightarrow> string \<Rightarrow> string" where
  "after_first c s = tl (dropWhile (\<lambda>x. x \<noteq> c) s)"

text \<open>\<^verbatim>\<open>s.split()\<close>: the maximal runs of non-whitespace.\<close>

fun split_ws_acc :: "string \<Rightarrow> string \<Rightarrow> string list" where
  "split_ws_acc w [] = (if w = [] then [] else [rev w])"
| "split_ws_acc w (x # xs) =
     (if isspace x then (if w = [] then split_ws_acc [] xs else rev w # split_ws_acc [] xs)
      else split_ws_acc (x # w) xs)"

definition split_ws :: "string \<Rightarrow> string list" where
  "split_ws s = split_ws_acc [] s"

definition rstrip_chars :: "char list \<Rightarrow> string \<Rightarrow> string" where
  "rstrip_chars cs s = rev (dropWhile (\<lambda>x. x \<in> set cs) (rev s))"

definition rstrip :: "string \<Rightarrow> string" where
  "rstrip s = rev (dropWhile isspace (rev s))"

definition lstrip_chars :: "char list \<Rightarrow> string \<Rightarrow> string" where
  "lstrip_chars cs s = dropWhile (\<lambda>x. x \<in> set cs) s"

text \<open>\<^verbatim>\<open>sep.join(xs)\<close>.\<close>

fun join_with :: "string \<Rightarrow> string list \<Rightarrow> string" where
  "join_with sep [] = []"
| "join_with sep [x] = x"
| "join_with sep (x # y # ys) = x @ sep @ join_with sep (y # ys)"

subsection \<open>posixpath\<close>

text \<open>\<^verbatim>\<open>posixpath.normpath\<close>: the loop over the components keeps the list \<open>new_comps\<close>
  (here in reverse, so that the last component is the head).\<close>

fun normpath_comps :: "nat \<Rightarrow> string list \<Rightarrow> string list \<Rightarrow> string list" where
  "normpath_comps initial_slashes new_comps [] = rev new_comps"
| "normpath_comps initial_slashes new_comps (part # comps) =
     (if part = [] \<or> part = ''.'' then normpath_comps initial_slashes new_comps comps
      else if part \<noteq> ''..'' \<or> (initial_slashes = 0 \<and> new_comps = [])
              \<or> (new_comps \<noteq> [] \<and> hd new_comps = ''..'')
        then normpath_comps initial_slashes (part # new_comps) comps
      else if new_comps \<noteq> [] then normpath_comps initial_slashes (tl new_comps) comps
      else normpath_comps initial_slashes new_comps comps)"

definition normpath :: "string \<Rightarrow> string" where
  "normpath p =
     (if p = [] then ''.''
      else
        let initial_slashes =
              (if startswith p ''/'' then
                 (if startswith p ''//'' \<and> \<not> startswith p ''///'' then 2 else 1)
               else 0);
            comps = normpath_comps initial_slashes [] (split_on CHR ''/'' p);
            q = replicate initial_slashes CHR ''/'' @ join_with ''/'' comps
        in if q = [] then ''.'' else q)"

text \<open>\<^verbatim>\<open>posixpath.join(a, b)\<close>.\<close>

definition posix_join :: "string \<Rightarrow> string \<Rightarrow> string" where
  "posix_join a b =
     (if startswith b ''/'' then b
      else if a = [] \<or> endswith a ''/'' then a @ b
      else a @ ''/'' @ b)"

text \<open>\<^verbatim>\<open>posixpath.dirname\<close>: \<open>head\<close> is the path up to and including its last slash.\<close>

definition posix_dirname :: "string \<Rightarrow> string" where
  "posix_dirname p =
     (let hd_part = rev (dropWhile (\<lambda>x. x \<noteq> CHR ''/'') (rev p))
      in if hd_part \<noteq> [] \<and> hd_part \<noteq> replicate (length hd_part) CHR ''/''
         then rstrip_chars ''/'' hd_part else hd_part)"

text \<open>\<^verbatim>\<open>posixpath.splitext\<close>: the extension starts at the last dot of the last
  component, unless only dots precede it there.\<close>

definition splitext :: "string \<Rightarrow> string \<times> string" where
  "splitext p =
     (let name = rev (takeWhile (\<lambda>x. x \<noteq> CHR ''/'') (rev p));
          ext = rev (takeWhile (\<lambda>x. x \<noteq> CHR ''.'') (rev name))
      in if CHR ''.'' \<in> set name
            \<and> list_ex (\<lambda>x. x \<noteq> CHR ''.'') (take (length name - length ext - 1) name)
         then (take (length p - length ext - 1) p, CHR ''.'' # ext)
         else (p, []))"

subsection \<open>The host\<close>

text \<open>
  What a handler reads and the model does not compute. The file system maps a path to
  what \<^verbatim>\<open>os.path.isdir\<close>, \<^verbatim>\<open>os.path.isfile\<close>, \<^verbatim>\<open>open(path, 'rb')\<close> and \<^verbatim>\<open>os.listdir\<close>
  find there: a directory with its listing, a regular file with its contents, and in both
  \<open>None\<close> where the read raises PermissionError. \<open>types_map\<close> is the strict table of
  \<^verbatim>\<open>mimetypes\<close> after \<^verbatim>\<open>mimetypes.init()\<close> has read the host's files (or registry) over
  the built-in table. \<open>script_directory\<close> is \<^verbatim>\<open>os.path.dirname(os.path.abspath(__file__))\<close>.
  The clock is read through \<open>log_date_time_string\<close>, \<open>date_time_string\<close> and
  \<open>mtime_string\<close> (\<^verbatim>\<open>date_time_string(fs.st_mtime)\<close> of a file); \<open>not_modified_since\<close>
  is the test of \<^verbatim>\<open>send_head\<close> that an If-Modified-Since value parses to a UTC time not
  before the file's modification time. The remaining fields are library functions whose
  text output no method of the scripts inspects: \<^verbatim>\<open>urllib.parse.unquote\<close>, \<^verbatim>\<open>repr\<close>,
  the path of \<^verbatim>\<open>urllib.parse.urlsplit\<close>, the redirect target built with
  \<^verbatim>\<open>urlunsplit\<close>, the error page (\<^verbatim>\<open>error_message_format\<close> filled in and encoded) and the
  directory listing page.
\<close>

datatype node = Missing | Directory "string list option" | Regular "string option"

record host =
  fs :: "string \<Rightarrow> node"
  types_map :: "string \<Rightarrow> string option"
  script_directory :: string
  client_address :: string
  log_date_time_string :: string
  date_time_string :: string
  mtime_string :: "string \<Rightarrow> string"
  not_modified_since :: "string \<Rightarrow> string \<Rightarrow> bool"
  sys_version :: string
  fs_encoding :: string
  unquote :: "string \<Rightarrow> string"
  py_repr :: "string \<Rightarrow> string"
  urlsplit_path :: "string \<Rightarrow> string"
  redirect_url :: "string \<Rightarrow> string"
  error_page :: "nat \<Rightarrow> string \<Rightarrow> string \<Rightarrow> string"
  listing_page :: "string \<Rightarrow> string \<Rightarrow> string list \<Rightarrow> string"

definition isdir :: "host \<Rightarrow> string \<Rightarrow> bool" where
  "isdir h p = (case fs h p of Directory _ \<Rightarrow> True | _ \<Rightarrow> False)"

definition isfile :: "host \<Rightarrow> string \<Rightarrow> bool" where
  "isfile h p = (case fs h p of Regular _ \<Rightarrow> True | _ \<Rightarrow> False)"

text \<open>\<^verbatim>\<open>open(path, 'rb')\<close> and reading the file: \<open>None\<close> is OSError (no such file, a
  directory, permission denied).\<close>

definition open_rb :: "host \<Rightarrow> string \<Rightarrow> string option" where
  "open_rb h p = (case fs h p of Regular (Some data) \<Rightarrow> Some data | _ \<Rightarrow> None)"

text \<open>\<^verbatim>\<open>os.listdir\<close>: \<open>None\<close> is OSError.\<close>

definition listdir :: "host \<Rightarrow> string \<Rightarrow> string list option" where
  "listdir h p = (case fs h p of Directory (Some names) \<Rightarrow> Some names | _ \<Rightarrow> None)"

subsection \<open>mimetypes\<close>

definition suffix_map :: "string \<Rightarrow> string option" where
  "suffix_map = map_of
     [(''.svgz'', ''.svg.gz''), (''.tgz'', ''.tar.gz''), (''.taz'', ''.tar.gz''),
      (''.tz'', ''.tar.gz''), (''.tbz2'', ''.tar.bz2''), (''.txz'', ''.tar.xz'')]"

definition encodings_map :: "string \<Rightarrow> string option" where
  "encodings_map = map_of
     [(''.gz'', ''gzip''), (''.Z'', ''compress''), (''.bz2'', ''bzip2''), (''.xz'', ''xz''),
      (''.br'', ''br'')]"

text \<open>\<^verbatim>\<open>mimetypes.add_type(type, ext)\<close> on the strict table.\<close>

definition add_type :: "string \<Rightarrow> string \<Rightarrow> (string \<Rightarrow> string option) \<Rightarrow> (string \<Rightarrow> string option)" where
  "add_type ty ext db = db(ext \<mapsto> ty)"

text \<open>
  \<^verbatim>\<open>mimetypes.guess_type(path)[0]\<close> with \<open>strict=True\<close>, for the absolute POSIX paths the
  handler passes (no URL scheme, no drive). The \<^verbatim>\<open>while\<close> over \<open>suffix_map\<close> runs at most
  once: every value of the table ends in an extension that is not a key.
\<close>

definition mimetypes_guess_type :: "(string \<Rightarrow> string option) \<Rightarrow> string \<Rightarrow> string option" where
  "mimetypes_guess_type db url =
     (let (base, ext) = splitext url;
          (base, ext) = (case suffix_map (lower ext) of
                           Some s \<Rightarrow> splitext (base @ s) | None \<Rightarrow> (base, ext));
          ext = (if encodings_map ext \<noteq> None then snd (splitext base) else ext)
      in db (lower ext))"

subsection \<open>http.server: the handler state and the response buffer\<close>

text \<open>
  The attributes of a handler object that the code below reads or writes. A line of
  \<open>_headers_buffer\<close> is kept as its parts: \<open>StatusLine p c m\<close> is the bytes of
  \<^verbatim>\<open>"%s %d %s\r\n" % (p, c, m)\<close>, \<open>HeaderLine k v\<close> those of \<^verbatim>\<open>"%s: %s\r\n" % (k, v)\<close>
  and \<open>BlankLine\<close> is \<^verbatim>\<open>b"\r\n"\<close>. \<open>wfile\<close> is the list of writes to the socket;
  \<open>stderr\<close> the list of writes to \<^verbatim>\<open>sys.stderr\<close>. \<open>headers\<close> is the parsed request
  header section, looked up by lower-cased name.
\<close>

datatype hline = StatusLine string nat string | HeaderLine string string | BlankLine

datatype chunk = HeaderBlock "hline list" | Body string

record handler =
  directory :: string
  command :: "string option"
  path :: string
  request_version :: string
  requestline :: string
  headers :: "string \<Rightarrow> string option"
  close_connection :: bool
  headers_buffer :: "hline list"
  wfile :: "chunk list"
  stderr :: "string list"

definition protocol_version :: string where
  "protocol_version = ''HTTP/1.0''"

definition default_request_version :: string where
  "default_request_version = ''HTTP/0.9''"

definition server_version :: string where
  "server_version = ''SimpleHTTP/0.6''"

definition error_content_type :: string where
  "error_content_type = ''text/html;charset=utf-8''"

text \<open>The entries of \<^verbatim>\<open>BaseHTTPRequestHandler.responses\<close> for the status codes the
  handlers send.\<close>

definition responses :: "nat \<Rightarrow> (string \<times> string) option" where
  "responses = map_of
     [(100, (''Continue'', ''Request received, please continue'')),
      (200, (''OK'', ''Request fulfilled, document follows'')),
      (301, (''Moved Permanently'', ''Object moved permanently -- see URI list'')),
      (304, (''Not Modified'', ''Document has not changed since given time'')),
      (400, (''Bad Request'', ''Bad request syntax or unsupported method'')),
      (404, (''Not Found'', ''Nothing matches the given URI'')),
      (414, (''Request-URI Too Long'', ''URI is too long'')),
      (431, (''Request Header Fields Too Large'',
             ''The server is unwilling to process the request because its header fields are too large'')),
      (501, (''Not Implemented'', ''Server does not support this operation'')),
      (505, (''HTTP Version Not Supported'', ''Cannot fulfill request''))]"

definition send_response_only :: "nat \<Rightarrow> string option \<Rightarrow> handler \<Rightarrow> handler" where
  "send_response_only code message st =
     (if request_version st \<noteq> ''HTTP/0.9'' then
        let msg = (case message of
                     Some m \<Rightarrow> m
                   | None \<Rightarrow> (case responses code of Some r \<Rightarrow> fst r | None \<Rightarrow> []))
        in st\<lparr>headers_buffer := headers_buffer st @ [StatusLine protocol_version code msg]\<rparr>
      else st)"

definition send_header :: "string \<Rightarrow> string \<Rightarrow> handler \<Rightarrow> handler" where
  "send_header keyword val st0 =
     (let st = (if request_version st0 \<noteq> ''HTTP/0.9''
                then st0\<lparr>headers_buffer := headers_buffer st0 @ [HeaderLine keyword val]\<rparr>
                else st0)
      in if lower keyword = ''connection'' then
           (if lower val = ''close'' then st\<lparr>close_connection := True\<rparr>
            else if lower val = ''keep-alive'' then st\<lparr>close_connection := False\<rparr>
            else st)
         else st)"

definition flush_headers :: "handler \<Rightarrow> handler" where
  "flush_headers st = st\<lparr>wfile := wfile st @ [HeaderBlock (headers_buffer st)], headers_buffer := []\<rparr>"

text \<open>\<^verbatim>\<open>BaseHTTPRequestHandler.end_headers\<close>, reached through \<^verbatim>\<open>super().end_headers()\<close>.\<close>

definition base_end_headers :: "handler \<Rightarrow> handler" where
  "base_end_headers st =
     (if request_version st \<noteq> ''HTTP/0.9''
      then flush_headers (st\<lparr>headers_buffer := headers_buffer st @ [BlankLine]\<rparr>)
      else st)"

text \<open>\<^verbatim>\<open>message.translate(self._control_char_table)\<close> of the inherited \<^verbatim>\<open>log_message\<close>.\<close>

definition hex_digit :: "nat \<Rightarrow> char" where
  "hex_digit n = (if n < 10 then char_of (48 + n) else char_of (87 + n))"

definition escape_control_char :: "char \<Rightarrow> string" where
  "escape_control_char c =
     (let n = (of_char c :: nat) in
      if n < 32 \<or> (127 \<le> n \<and> n < 160) then [CHR 0x5C, CHR ''x'', hex_digit (n div 16), hex_digit (n mod 16)]
      else if n = 92 then [CHR 0x5C, CHR 0x5C]
      else [c])"

definition translate_control :: "string \<Rightarrow> string" where
  "translate_control s = concat (map escape_control_char s)"

text \<open>\<^verbatim>\<open>BaseHTTPRequestHandler.log_message\<close>; \<open>message\<close> is \<^verbatim>\<open>format % args\<close>.\<close>

definition base_log_message :: "host \<Rightarrow> string \<Rightarrow> handler \<Rightarrow> handler" where
  "base_log_message h message st =
     st\<lparr>stderr := stderr st @
        [client_address h @ '' - - ['' @ log_date_time_string h @ ''] ''
           @ translate_control message @ [newline]]\<rparr>"

text \<open>\<^verbatim>\<open>SimpleHTTPRequestHandler.extensions_map\<close> and \<^verbatim>\<open>SimpleHTTPRequestHandler.guess_type\<close>,
  reached through \<^verbatim>\<open>super().guess_type(path)\<close>; \<open>db\<close> is the strict table of \<^verbatim>\<open>mimetypes\<close>.\<close>

definition extensions_map :: "string \<Rightarrow> string option" where
  "extensions_map = map_of
     [(''.gz'', ''application/gzip''), (''.Z'', ''application/octet-stream''),
      (''.bz2'', ''application/x-bzip2''), (''.xz'', ''application/x-xz'')]"

definition base_guess_type :: "(string \<Rightarrow> string option) \<Rightarrow> string \<Rightarrow> string" where
  "base_guess_type db p =
     (let ext = snd (splitext p) in
      case extensions_map ext of
        Some t \<Rightarrow> t
      | None \<Rightarrow>
         (case extensions_map (lower ext) of
            Some t \<Rightarrow> t
          | None \<Rightarrow>
             (case mimetypes_guess_type db p of
                Some guess \<Rightarrow> (if guess \<noteq> [] then guess else ''application/octet-stream'')
              | None \<Rightarrow> ''application/octet-stream'')))"

subsection \<open>The handlers of the two scripts\<close>

text \<open>
  \<open>SimpleServer\<close> is \<^verbatim>\<open>CORSRequestHandler\<close> of simple-server.py, \<open>ScriptsServer\<close> is
  \<^verbatim>\<open>CustomHTTPRequestHandler\<close> of scripts/server.py. The functions named after a class
  are the methods that class defines; \<open>end_headers\<close>, \<open>log_message\<close> and \<open>guess_type\<close>
  resolve a call on \<open>self\<close> to the override where the class has one and to the inherited
  method where it has none.
\<close>

datatype variant = SimpleServer | ScriptsServer

definition CORSRequestHandler_end_headers :: "handler \<Rightarrow> handler" where
  "CORSRequestHandler_end_headers st =
     (let st = send_header ''Access-Control-Allow-Origin'' ''*'' st;
          st = send_header ''Access-Control-Allow-Methods'' ''GET'' st;
          st = send_header ''Cache-Control'' ''no-store, no-cache, must-revalidate'' st
      in base_end_headers st)"

definition CORSRequestHandler_log_message :: "host \<Rightarrow> string \<Rightarrow> handler \<Rightarrow> handler" where
  "CORSRequestHandler_log_message h message st =
     st\<lparr>stderr := stderr st @ [log_date_time_string h @ '': '' @ message @ [newline]]\<rparr>"

definition CustomHTTPRequestHandler_end_headers :: "handler \<Rightarrow> handler" where
  "CustomHTTPRequestHandler_end_headers st =
     (let st = send_header ''Access-Control-Allow-Origin'' ''*'' st;
          st = send_header ''Access-Control-Allow-Methods'' ''GET'' st;
          st = send_header ''Cache-Control'' ''no-store, no-cache, must-revalidate'' st
      in base_end_headers st)"

text \<open>The table \<^verbatim>\<open>mimetypes\<close> holds once the script's module-level code has run:
  scripts/server.py registers two types, simple-server.py none.\<close>

definition mimetypes_db :: "variant \<Rightarrow> host \<Rightarrow> string \<Rightarrow> string option" where
  "mimetypes_db v h =
     (case v of
        SimpleServer \<Rightarrow> types_map h
      | ScriptsServer \<Rightarrow>
          add_type ''text/css'' ''.css'' (add_type ''application/javascript'' ''.js'' (types_map h)))"

definition CustomHTTPRequestHandler_guess_type :: "host \<Rightarrow> string \<Rightarrow> string" where
  "CustomHTTPRequestHandler_guess_type h p =
     (if endswith p ''.js'' then ''application/javascript''
      else base_guess_type (mimetypes_db ScriptsServer h) p)"

definition end_headers :: "variant \<Rightarrow> handler \<Rightarrow> handler" where
  "end_headers v st =
     (case v of
        SimpleServer \<Rightarrow> CORSRequestHandler_end_headers st
      | ScriptsServer \<Rightarrow> CustomHTTPRequestHandler_end_headers st)"

definition log_message :: "variant \<Rightarrow> host \<Rightarrow> string \<Rightarrow> handler \<Rightarrow> handler" where
  "log_message v h message st =
     (case v of
        SimpleServer \<Rightarrow> CORSRequestHandler_log_message h message st
      | ScriptsServer \<Rightarrow> base_log_message h message st)"

definition guess_type :: "variant \<Rightarrow> host \<Rightarrow> string \<Rightarrow> string" where
  "guess_type v h p =
     (case v of
        SimpleServer \<Rightarrow> base_guess_type (mimetypes_db SimpleServer h) p
      | ScriptsServer \<Rightarrow> CustomHTTPRequestHandler_guess_type h p)"

subsection \<open>http.server: responses\<close>

definition log_request :: "variant \<Rightarrow> host \<Rightarrow> nat \<Rightarrow> handler \<Rightarrow> handler" where
  "log_request v h code st =
     log_message v h ([dquote] @ requestline st @ [dquote] @ '' '' @ str_nat code @ '' -'') st"

definition log_error :: "variant \<Rightarrow> host \<Rightarrow> string \<Rightarrow> handler \<Rightarrow> handler" where
  "log_error v h message st = log_message v h message st"

definition version_string :: "host \<Rightarrow> string" where
  "version_string h = server_version @ '' '' @ sys_version h"

definition send_response :: "variant \<Rightarrow> host \<Rightarrow> nat \<Rightarrow> string option \<Rightarrow> handler \<Rightarrow> handler" where
  "send_response v h code message st =
     (let st = log_request v h code st;
          st = send_response_only code message st;
          st = send_header ''Server'' (version_string h) st
      in send_header ''Date'' (date_time_string h) st)"

definition send_error :: "variant \<Rightarrow> host \<Rightarrow> nat \<Rightarrow> string option \<Rightarrow> string option \<Rightarrow> handler \<Rightarrow> handler" where
  "send_error v h code message explain st =
     (let (shortmsg, longmsg) = (case responses code of Some r \<Rightarrow> r | None \<Rightarrow> (''???'', ''???''));
          msg = (case message of None \<Rightarrow> shortmsg | Some m \<Rightarrow> m);
          expl = (case explain of None \<Rightarrow> longmsg | Some e \<Rightarrow> e);
          st = log_error v h (''code '' @ str_nat code @ '', message '' @ msg) st;
          st = send_response v h code (Some msg) st;
          st = send_header ''Connection'' ''close'' st;
          has_body = (200 \<le> code \<and> code \<noteq> 204 \<and> code \<noteq> 205 \<and> code \<noteq> 304);
          body = error_page h code msg expl;
          st = (if has_body
                then send_header ''Content-Length'' (str_nat (length body))
                       (send_header ''Content-Type'' error_content_type st)
                else st);
          st = end_headers v st
      in if command st \<noteq> Some ''HEAD'' \<and> has_body \<and> body \<noteq> []
         then st\<lparr>wfile := wfile st @ [Body body]\<rparr> else st)"

subsection \<open>http.server: serving files\<close>

text \<open>\<^verbatim>\<open>SimpleHTTPRequestHandler.translate_path\<close>, with \<open>dir\<close> for \<^verbatim>\<open>self.directory\<close>.\<close>

definition translate_path :: "host \<Rightarrow> string \<Rightarrow> string \<Rightarrow> string" where
  "translate_path h dir p0 =
     (let p1 = before_first CHR ''?'' p0;
          p2 = before_first CHR ''#'' p1;
          trailing_slash = endswith (rstrip p2) ''/'';
          p3 = normpath (unquote h p2);
          words = filter (\<lambda>w. w \<noteq> []) (split_on CHR ''/'' p3);
          p4 = foldl (\<lambda>acc word.
                  if posix_dirname word \<noteq> [] \<or> word = ''.'' \<or> word = ''..'' then acc
                  else posix_join acc word) dir words
      in if trailing_slash then p4 @ ''/'' else p4)"

text \<open>\<^verbatim>\<open>SimpleHTTPRequestHandler.list_directory\<close>.\<close>

definition list_directory :: "variant \<Rightarrow> host \<Rightarrow> string \<Rightarrow> handler \<Rightarrow> string option \<times> handler" where
  "list_directory v h p st =
     (case listdir h p of
        None \<Rightarrow> (None, send_error v h 404 (Some ''No permission to list directory'') None st)
      | Some names \<Rightarrow>
          (let encoded = listing_page h p (path st) names;
               st = send_response v h 200 None st;
               st = send_header ''Content-type'' (''text/html; charset='' @ fs_encoding h) st;
               st = send_header ''Content-Length'' (str_nat (length encoded)) st
           in (Some encoded, end_headers v st)))"

text \<open>The test of \<^verbatim>\<open>send_head\<close> under "Use browser cache if possible": the request has
  If-Modified-Since and no If-None-Match, and the file has not changed since.\<close>

definition use_browser_cache :: "host \<Rightarrow> string \<Rightarrow> handler \<Rightarrow> bool" where
  "use_browser_cache h p st =
     (case headers st ''if-modified-since'' of
        Some ims \<Rightarrow> headers st ''if-none-match'' = None \<and> not_modified_since h ims p
      | None \<Rightarrow> False)"

text \<open>\<^verbatim>\<open>send_head\<close> from \<^verbatim>\<open>ctype = self.guess_type(path)\<close> on.\<close>

definition serve_file :: "variant \<Rightarrow> host \<Rightarrow> string \<Rightarrow> handler \<Rightarrow> string option \<times> handler" where
  "serve_file v h p st =
     (let ctype = guess_type v h p in
      if endswith p ''/'' then (None, send_error v h 404 (Some ''File not found'') None st)
      else
        (case open_rb h p of
           None \<Rightarrow> (None, send_error v h 404 (Some ''File not found'') None st)
         | Some data \<Rightarrow>
             if use_browser_cache h p st
             then (None, end_headers v (send_response v h 304 None st))
             else
               (let st = send_response v h 200 None st;
                    st = send_header ''Content-type'' ctype st;
                    st = send_header ''Content-Length'' (str_nat (length data)) st;
                    st = send_header ''Last-Modified'' (mtime_string h p) st
                in (Some data, end_headers v st))))"

text \<open>\<^verbatim>\<open>SimpleHTTPRequestHandler.send_head\<close>.\<close>

definition send_head :: "variant \<Rightarrow> host \<Rightarrow> handler \<Rightarrow> string option \<times> handler" where
  "send_head v h st =
     (let p = translate_path h (directory st) (path st) in
      if isdir h p then
        (if \<not> endswith (urlsplit_path h (path st)) ''/'' then
           (let st = send_response v h 301 None st;
                st = send_header ''Location'' (redirect_url h (path st)) st;
                st = send_header ''Content-Length'' ''0'' st
            in (None, end_headers v st))
         else if isfile h (posix_join p ''index.html'') then serve_file v h (posix_join p ''index.html'') st
         else if isfile h (posix_join p ''index.htm'') then serve_file v h (posix_join p ''index.htm'') st
         else list_directory v h p st)
      else serve_file v h p st)"

text \<open>\<^verbatim>\<open>do_GET\<close> copies the file to \<open>wfile\<close> (\<^verbatim>\<open>shutil.copyfileobj\<close> writes nothing for an
  empty file); \<^verbatim>\<open>do_HEAD\<close> closes it.\<close>

definition do_GET :: "variant \<Rightarrow> host \<Rightarrow> handler \<Rightarrow> handler" where
  "do_GET v h st =
     (case send_head v h st of
        (Some data, st') \<Rightarrow> (if data \<noteq> [] then st'\<lparr>wfile := wfile st' @ [Body data]\<rparr> else st')
      | (None, st') \<Rightarrow> st')"

definition do_HEAD :: "variant \<Rightarrow> host \<Rightarrow> handler \<Rightarrow> handler" where
  "do_HEAD v h st = snd (send_head v h st)"

subsection \<open>http.server: reading a request\<close>

text \<open>
  A request is the line \<^verbatim>\<open>rfile.readline(65537)\<close> returns and what
  \<^verbatim>\<open>http.client.parse_headers\<close> makes of the lines after it: the header fields (by
  lower-cased name) or one of its two exceptions with its text.
\<close>

datatype header_section =
  Headers "string \<Rightarrow> string option" | LineTooLong string | TooManyHeaders string

record request =
  raw_requestline :: string
  header_section :: header_section

text \<open>The version check of \<^verbatim>\<open>parse_request\<close>: \<open>None\<close> is the ValueError branch.\<close>

definition parse_version :: "string \<Rightarrow> (nat \<times> nat) option" where
  "parse_version version =
     (if \<not> startswith version ''HTTP/'' then None
      else
        let base_version_number = after_first CHR ''/'' version;
            version_number = split_on CHR ''.'' base_version_number
        in if length version_number \<noteq> 2 then None
           else if list_ex (\<lambda>component. \<not> str_isdigit component) version_number then None
           else if list_ex (\<lambda>component. length component > 10) version_number then None
           else (case (int_str (version_number ! 0), int_str (version_number ! 1)) of
                   (Some major, Some minor) \<Rightarrow> Some (major, minor)
                 | _ \<Rightarrow> None))"

definition handle_expect_100 :: "variant \<Rightarrow> handler \<Rightarrow> handler" where
  "handle_expect_100 v st = end_headers v (send_response_only 100 None st)"

text \<open>\<^verbatim>\<open>parse_request\<close>, the block under \<^verbatim>\<open>if len(words) >= 3\<close>: \<open>Inl\<close> is
  \<^verbatim>\<open>return False\<close> after an error response.\<close>

definition check_version :: "variant \<Rightarrow> host \<Rightarrow> string list \<Rightarrow> handler \<Rightarrow> handler + handler" where
  "check_version v h words st =
     (if length words \<ge> 3 then
        (let version = last words in
         case parse_version version of
           None \<Rightarrow>
             Inl (send_error v h 400 (Some (''Bad request version ('' @ py_repr h version @ '')'')) None st)
         | Some (major, minor) \<Rightarrow>
             (let st = (if (major > 1 \<or> (major = 1 \<and> minor \<ge> 1)) \<and> protocol_version \<ge> ''HTTP/1.1''
                        then st\<lparr>close_connection := False\<rparr> else st)
              in if major \<ge> 2 then
                   Inl (send_error v h 505
                          (Some (''Invalid HTTP version ('' @ after_first CHR ''/'' version @ '')'')) None st)
                 else Inr (st\<lparr>request_version := version\<rparr>)))
      else Inr st)"

text \<open>\<^verbatim>\<open>parse_request\<close> from \<^verbatim>\<open>self.headers = http.client.parse_headers(...)\<close> on.\<close>

definition examine_headers :: "variant \<Rightarrow> host \<Rightarrow> request \<Rightarrow> handler \<Rightarrow> bool \<times> handler" where
  "examine_headers v h req st =
     (case header_section req of
        LineTooLong err \<Rightarrow> (False, send_error v h 431 (Some ''Line too long'') (Some err) st)
      | TooManyHeaders err \<Rightarrow> (False, send_error v h 431 (Some ''Too many headers'') (Some err) st)
      | Headers hs \<Rightarrow>
          (let st = st\<lparr>headers := hs\<rparr>;
               conntype = (case hs ''connection'' of Some c \<Rightarrow> c | None \<Rightarrow> []);
               st = (if lower conntype = ''close'' then st\<lparr>close_connection := True\<rparr>
                     else if lower conntype = ''keep-alive'' \<and> protocol_version \<ge> ''HTTP/1.1''
                       then st\<lparr>close_connection := False\<rparr>
                     else st);
               expect = (case hs ''expect'' of Some e \<Rightarrow> e | None \<Rightarrow> [])
           in if lower expect = ''100-continue'' \<and> protocol_version \<ge> ''HTTP/1.1''
                 \<and> request_version st \<ge> ''HTTP/1.1''
              then (True, handle_expect_100 v st)
              else (True, st)))"

text \<open>\<^verbatim>\<open>BaseHTTPRequestHandler.parse_request\<close>.\<close>

definition parse_request :: "variant \<Rightarrow> host \<Rightarrow> request \<Rightarrow> handler \<Rightarrow> bool \<times> handler" where
  "parse_request v h req st0 =
     (let line = rstrip_chars [CHR 0x0D, newline] (raw_requestline req);
          st = st0\<lparr>command := None, request_version := default_request_version,
                    close_connection := True, requestline := line\<rparr>;
          words = split_ws line
      in if length words = 0 then (False, st)
         else
           (case check_version v h words st of
              Inl st \<Rightarrow> (False, st)
            | Inr st \<Rightarrow>
                if \<not> (2 \<le> length words \<and> length words \<le> 3) then
                  (False, send_error v h 400
                            (Some (''Bad request syntax ('' @ py_repr h line @ '')'')) None st)
                else if length words = 2 \<and> words ! 0 \<noteq> ''GET'' then
                  (False, send_error v h 400
                            (Some (''Bad HTTP/0.9 request type ('' @ py_repr h (words ! 0) @ '')''))
                            None (st\<lparr>close_connection := True\<rparr>))
                else
                  (let st = (if length words = 2 then st\<lparr>close_connection := True\<rparr> else st);
                       st = st\<lparr>command := Some (words ! 0), path := words ! 1\<rparr>;
                       st = (if startswith (path st) ''//''
                             then st\<lparr>path := ''/'' @ lstrip_chars ''/'' (path st)\<rparr> else st)
                   in examine_headers v h req st)))"

text \<open>\<^verbatim>\<open>BaseHTTPRequestHandler.handle_one_request\<close>. The handler classes have the
  attributes \<^verbatim>\<open>do_GET\<close> and \<^verbatim>\<open>do_HEAD\<close>, both inherited, and no other \<^verbatim>\<open>do_\<close> method.
  No socket timeout is set, so the \<^verbatim>\<open>TimeoutError\<close> branch is not reached.\<close>

definition handle_one_request :: "variant \<Rightarrow> host \<Rightarrow> request \<Rightarrow> handler \<Rightarrow> handler" where
  "handle_one_request v h req st =
     (if length (raw_requestline req) > 65536 then
        send_error v h 414 None None (st\<lparr>requestline := [], request_version := [], command := Some []\<rparr>)
      else if raw_requestline req = [] then st\<lparr>close_connection := True\<rparr>
      else
        (case parse_request v h req st of
           (False, st) \<Rightarrow> st
         | (True, st) \<Rightarrow>
             if command st = Some ''GET'' then do_GET v h st
             else if command st = Some ''HEAD'' then do_HEAD v h st
             else send_error v h 501
                    (Some (''Unsupported method (''
                             @ py_repr h (case command st of Some c \<Rightarrow> c | None \<Rightarrow> []) @ '')''))
                    None st))"

text \<open>\<^verbatim>\<open>BaseHTTPRequestHandler.handle\<close>: the requests a client sends on one connection are
  read one after the other while \<open>close_connection\<close> is false; the empty list is a client
  that closes without sending, for which \<^verbatim>\<open>readline\<close> returns the empty string.\<close>

fun handle_requests :: "variant \<Rightarrow> host \<Rightarrow> request list \<Rightarrow> handler \<Rightarrow> handler" where
  "handle_requests v h [] st = st\<lparr>close_connection := True\<rparr>"
| "handle_requests v h (req # reqs) st =
     (let st = handle_one_request v h req st
      in if close_connection st then st else handle_requests v h reqs st)"

definition handle :: "variant \<Rightarrow> host \<Rightarrow> request list \<Rightarrow> handler \<Rightarrow> handler" where
  "handle v h reqs st = handle_requests v h reqs (st\<lparr>close_connection := True\<rparr>)"

subsection \<open>The process and socketserver\<close>

text \<open>
  The state of the running script: its working directory, the strings passed to
  \<^verbatim>\<open>print\<close>, the writes to \<^verbatim>\<open>sys.stderr\<close> and, connection by connection, the writes to
  the socket. \<open>KeyboardInterrupt\<close> is the one exception here that is not an
  \<^verbatim>\<open>Exception\<close>; \<open>Exception msg\<close> is any exception of that class, \<open>msg\<close> its \<^verbatim>\<open>str()\<close>.
\<close>

record process =
  cwd :: string
  stdout :: "string list"
  sys_stderr :: "string list"
  sent :: "chunk list list"

datatype exc = KeyboardInterrupt | Exception string

datatype event = Connection "request list" | Raise exc

definition print :: "string \<Rightarrow> process \<Rightarrow> process" where
  "print s p = p\<lparr>stdout := stdout p @ [s]\<rparr>"

text \<open>\<^verbatim>\<open>SimpleHTTPRequestHandler.__init__(self, *args, directory=None, **kwargs)\<close>: the
  attributes of a new handler.\<close>

definition SimpleHTTPRequestHandler_init :: "string option \<Rightarrow> process \<Rightarrow> handler" where
  "SimpleHTTPRequestHandler_init dir p =
     \<lparr>directory = (case dir of None \<Rightarrow> cwd p | Some d \<Rightarrow> d),
      command = None, path = [], request_version = [], requestline = [],
      headers = (\<lambda>_. None), close_connection = True, headers_buffer = [], wfile = [],
      stderr = []\<rparr>"

definition PORT :: nat where
  "PORT = 8080"

definition DIRECTORY :: "host \<Rightarrow> string" where
  "DIRECTORY h = script_directory h"

text \<open>scripts/server.py passes \<^verbatim>\<open>directory=DIRECTORY\<close>; simple-server.py defines no
  \<^verbatim>\<open>__init__\<close>, so its handler gets \<^verbatim>\<open>os.getcwd()\<close>.\<close>

definition CustomHTTPRequestHandler_init :: "host \<Rightarrow> process \<Rightarrow> handler" where
  "CustomHTTPRequestHandler_init h p = SimpleHTTPRequestHandler_init (Some (DIRECTORY h)) p"

definition new_handler :: "variant \<Rightarrow> host \<Rightarrow> process \<Rightarrow> handler" where
  "new_handler v h p =
     (case v of
        SimpleServer \<Rightarrow> SimpleHTTPRequestHandler_init None p
      | ScriptsServer \<Rightarrow> CustomHTTPRequestHandler_init h p)"

text \<open>\<^verbatim>\<open>TCPServer.process_request\<close>: a handler is built for the connection and handles it.\<close>

definition process_request :: "variant \<Rightarrow> host \<Rightarrow> request list \<Rightarrow> process \<Rightarrow> process" where
  "process_request v h reqs p =
     (let st = handle v h reqs (new_handler v h p)
      in p\<lparr>sys_stderr := sys_stderr p @ stderr st, sent := sent p @ [wfile st]\<rparr>)"

text \<open>\<^verbatim>\<open>serve_forever\<close> over what happens while it runs: connections, and exceptions
  raised in the loop (Ctrl-C raises KeyboardInterrupt). \<open>None\<close>: the events are used up
  and the call has not returned.\<close>

fun serve_forever :: "variant \<Rightarrow> host \<Rightarrow> event list \<Rightarrow> process \<Rightarrow> process \<times> exc option" where
  "serve_forever v h [] p = (p, None)"
| "serve_forever v h (Connection reqs # evs) p = serve_forever v h evs (process_request v h reqs p)"
| "serve_forever v h (Raise e # evs) p = (p, Some e)"

subsection \<open>The scripts\<close>

text \<open>
  A run is given by what \<^verbatim>\<open>socketserver.TCPServer(("", PORT), ...)\<close> raises (\<open>None\<close>: the
  port is bound) and by the events of \<^verbatim>\<open>serve_forever\<close>. A script ends by running off
  its last line (\<open>Finished\<close>), by an exception no \<^verbatim>\<open>except\<close> clause catches
  (\<open>Uncaught\<close>), or not at all within the events given (\<open>Serving\<close>).
\<close>

datatype outcome = Finished | Uncaught exc | Serving

text \<open>The exit status of the interpreter: 0 at the end of the script, 1 after the
  traceback of an uncaught exception, 130 where a shell reports the death by SIGINT that
  follows an uncaught KeyboardInterrupt.\<close>

definition exit_status :: "outcome \<Rightarrow> nat option" where
  "exit_status out =
     (case out of
        Finished \<Rightarrow> Some 0
      | Uncaught (Exception _) \<Rightarrow> Some 1
      | Uncaught KeyboardInterrupt \<Rightarrow> Some 130
      | Serving \<Rightarrow> None)"

text \<open>simple-server.py: the module-level statements before the \<^verbatim>\<open>try\<close>.\<close>

definition simple_server_startup :: "host \<Rightarrow> process \<Rightarrow> process" where
  "simple_server_startup h p =
     (let p = print (''Starting server on port '' @ str_nat PORT) p;
          p = print (''Serving files from: '' @ DIRECTORY h) p;
          p = print (''Open your browser and navigate to: http://localhost:'' @ str_nat PORT
                       @ ''/simple-start.html'') p;
          p = print ''Press Ctrl+C to stop the server'' p
      in p\<lparr>cwd := DIRECTORY h\<rparr>)"

text \<open>simple-server.py: the \<^verbatim>\<open>try\<close> statement, which encloses the construction of the
  server as well as \<^verbatim>\<open>serve_forever\<close>.\<close>

definition simple_server :: "host \<Rightarrow> exc option \<Rightarrow> event list \<Rightarrow> process \<Rightarrow> process \<times> outcome" where
  "simple_server h bind_error evs p =
     (let p = simple_server_startup h p;
          (p, raised) =
             (case bind_error of
                Some e \<Rightarrow> (p, Some e)
              | None \<Rightarrow>
                  serve_forever SimpleServer h evs
                    (print ''Server started successfully. Press Ctrl+C to stop.'' p))
      in case raised of
           Some KeyboardInterrupt \<Rightarrow> (print (newline # ''Server stopped by user.'') p, Finished)
         | Some (Exception e) \<Rightarrow> (print (''Error starting server: '' @ e) p, Finished)
         | None \<Rightarrow> (p, Serving))"

text \<open>scripts/server.py: the module-level statements before the \<^verbatim>\<open>with\<close>.\<close>

definition scripts_server_startup :: "host \<Rightarrow> process \<Rightarrow> process" where
  "scripts_server_startup h p =
     (let p = print (''Starting server at http://localhost:'' @ str_nat PORT) p;
          p = print (''Serving files from: '' @ DIRECTORY h) p
      in print ''Press Ctrl+C to stop the server'' p)"

text \<open>scripts/server.py: the \<^verbatim>\<open>with\<close> statement constructs the server outside the
  \<^verbatim>\<open>try\<close>, which has no clause for \<^verbatim>\<open>Exception\<close>.\<close>

definition scripts_server :: "host \<Rightarrow> exc option \<Rightarrow> event list \<Rightarrow> process \<Rightarrow> process \<times> outcome" where
  "scripts_server h bind_error evs p =
     (let p = scripts_server_startup h p
      in case bind_error of
           Some e \<Rightarrow> (p, Uncaught e)
         | None \<Rightarrow>
             (case serve_forever ScriptsServer h evs p of
                (p, Some KeyboardInterrupt) \<Rightarrow> (print (newline # ''Server stopped.'') p, Finished)
              | (p, Some (Exception e)) \<Rightarrow> (p, Uncaught (Exception e))
              | (p, None) \<Rightarrow> (p, Serving)))"

definition run :: "variant \<Rightarrow> host \<Rightarrow> exc option \<Rightarrow> event list \<Rightarrow> process \<Rightarrow> process \<times> outcome" where
  "run v h bind_error evs p =
     (case v of
        SimpleServer \<Rightarrow> simple_server h bind_error evs p
      | ScriptsServer \<Rightarrow> scripts_server h bind_error evs p)"

subsection \<open>A host and requests to evaluate on\<close>

text \<open>
  A development checkout under \<^verbatim>\<open>/srv/game\<close> with one unreadable file, the entries of
  CPython 3.11's built-in MIME table for the extensions that occur, and a clock standing
  still. The requests below carry no percent escape, no quote and no query, so
  \<^verbatim>\<open>unquote\<close> and \<^verbatim>\<open>urlsplit(...).path\<close> return them unchanged and \<^verbatim>\<open>repr\<close> puts them
  between single quotes.
\<close>

definition example_fs :: "string \<Rightarrow> node" where
  "example_fs p =
     (if p = ''/srv/game'' \<or> p = ''/srv/game/''
        then Directory (Some [''index.html'', ''app.js'', ''style.css'', ''.css'', ''secret.txt''])
      else if p = ''/srv/game/index.html'' then Regular (Some ''<html></html>'')
      else if p = ''/srv/game/app.js'' then Regular (Some ''let x = 1;'')
      else if p = ''/srv/game/style.css'' then Regular (Some ''body {}'')
      else if p = ''/srv/game/.css'' then Regular (Some ''p {}'')
      else if p = ''/srv/game/secret.txt'' then Regular None
      else Missing)"

definition example_host :: host where
  "example_host =
     \<lparr>fs = example_fs,
      types_map = map_of [(''.js'', ''application/javascript''), (''.css'', ''text/css''),
                          (''.html'', ''text/html''), (''.txt'', ''text/plain'')],
      script_directory = ''/srv/game'',
      client_address = ''127.0.0.1'',
      log_date_time_string = ''04/Nov/2026 12:00:00'',
      date_time_string = ''Wed, 04 Nov 2026 12:00:00 GMT'',
      mtime_string = (\<lambda>_. ''Tue, 03 Nov 2026 09:30:00 GMT''),
      not_modified_since = (\<lambda>_ _. False),
      sys_version = ''Python/3.11.10'',
      fs_encoding = ''utf-8'',
      unquote = (\<lambda>s. s),
      py_repr = (\<lambda>s. [CHR 0x27] @ s @ [CHR 0x27]),
      urlsplit_path = (\<lambda>s. s),
      redirect_url = (\<lambda>s. s @ ''/''),
      error_page = (\<lambda>code msg expl. ''<p>Error code: '' @ str_nat code @ ''</p>''),
      listing_page = (\<lambda>p shown names. join_with [newline] names)\<rparr>"

text \<open>The same host with a \<^verbatim>\<open>mime.types\<close> file that gives \<^verbatim>\<open>.js\<close> the type
  \<^verbatim>\<open>text/javascript\<close> (as CPython 3.12's built-in table does) and \<^verbatim>\<open>.css\<close> the type
  \<^verbatim>\<open>text/plain\<close>.\<close>

definition other_table_host :: host where
  "other_table_host =
     example_host\<lparr>types_map := map_of [(''.js'', ''text/javascript''), (''.css'', ''text/plain''),
                                        (''.html'', ''text/html'')]\<rparr>"

definition example_process :: process where
  "example_process = \<lparr>cwd = ''/home/dev'', stdout = [], sys_stderr = [], sent = []\<rparr>"

text \<open>A request line followed by CRLF and an empty header section.\<close>

definition bare_request :: "string \<Rightarrow> request" where
  "bare_request line =
     \<lparr>raw_requestline = line @ [CHR 0x0D, newline], header_section = Headers (\<lambda>_. None)\<rparr>"

subsection \<open>Reading a response\<close>

text \<open>
  What a client finds in the bytes written to the socket: the header blocks, the status
  codes on their status lines, the values of a header field (field names compare without
  regard to case), and the three fields both scripts add in \<^verbatim>\<open>end_headers\<close>.
\<close>

definition header_blocks :: "chunk list \<Rightarrow> hline list list" where
  "header_blocks cs = concat (map (\<lambda>c. case c of HeaderBlock ls \<Rightarrow> [ls] | Body _ \<Rightarrow> []) cs)"

definition bodies :: "chunk list \<Rightarrow> string list" where
  "bodies cs = concat (map (\<lambda>c. case c of HeaderBlock _ \<Rightarrow> [] | Body b \<Rightarrow> [b]) cs)"

definition status_codes :: "hline list \<Rightarrow> nat list" where
  "status_codes ls = concat (map (\<lambda>l. case l of StatusLine _ code _ \<Rightarrow> [code] | _ \<Rightarrow> []) ls)"

definition header_values :: "string \<Rightarrow> hline list \<Rightarrow> string list" where
  "header_values k ls =
     concat (map (\<lambda>l. case l of
                          HeaderLine k' v \<Rightarrow> (if lower k' = lower k then [v] else [])
                        | _ \<Rightarrow> []) ls)"

text \<open>The lines \<^verbatim>\<open>send_response\<close> buffers, the three lines \<^verbatim>\<open>end_headers\<close> of either
  script adds, and the line a call of \<^verbatim>\<open>log_message\<close> writes.\<close>

definition response_head :: "host \<Rightarrow> nat \<Rightarrow> string \<Rightarrow> hline list" where
  "response_head h code msg =
     [StatusLine protocol_version code msg, HeaderLine ''Server'' (version_string h),
      HeaderLine ''Date'' (date_time_string h)]"

definition fixed_headers :: "hline list" where
  "fixed_headers =
     [HeaderLine ''Access-Control-Allow-Origin'' ''*'',
      HeaderLine ''Access-Control-Allow-Methods'' ''GET'',
      HeaderLine ''Cache-Control'' ''no-store, no-cache, must-revalidate'']"

definition log_line :: "variant \<Rightarrow> host \<Rightarrow> string \<Rightarrow> string" where
  "log_line v h message =
     (case v of
        SimpleServer \<Rightarrow> log_date_time_string h @ '': '' @ message @ [newline]
      | ScriptsServer \<Rightarrow>
          client_address h @ '' - - ['' @ log_date_time_string h @ ''] ''
            @ translate_control message @ [newline])"

definition request_log_message :: "string \<Rightarrow> nat \<Rightarrow> string" where
  "request_log_message line code = [dquote] @ line @ [dquote] @ '' '' @ str_nat code @ '' -''"

definition has_fixed_headers :: "hline list \<Rightarrow> bool" where
  "has_fixed_headers ls =
     (header_values ''Access-Control-Allow-Origin'' ls = [''*'']
      \<and> header_values ''Access-Control-Allow-Methods'' ls = [''GET'']
      \<and> header_values ''Cache-Control'' ls = [''no-store, no-cache, must-revalidate''])"

subsection \<open>Predicates of the proofs\<close>

text \<open>
  \<open>reserved\<close>: a field name that is one of the three fixed ones. \<open>no_fixed\<close>: header
  lines with none of them. \<open>headers_ok\<close>: the invariant of a handler that nothing
  buffered carries a fixed field and every header block written carries all three.
  \<open>clean\<close>: a path suffix that is empty or ends in a name and has no component
  \<^verbatim>\<open>..\<close>. \<open>ok_headers\<close>, \<open>error_headers\<close>: the header block of a response that sends a
  file, and of an error response. \<open>parsed\<close>: the handler \<^verbatim>\<open>parse_request\<close> leaves when it
  accepts a request line of the given words with an empty header section.
\<close>

definition reserved :: "string \<Rightarrow> bool" where
  "reserved k = (lower k = lower ''Access-Control-Allow-Origin''
     \<or> lower k = lower ''Access-Control-Allow-Methods'' \<or> lower k = lower ''Cache-Control'')"

definition no_fixed :: "hline list \<Rightarrow> bool" where
  "no_fixed ls = (header_values ''Access-Control-Allow-Origin'' ls = []
      \<and> header_values ''Access-Control-Allow-Methods'' ls = []
      \<and> header_values ''Cache-Control'' ls = [])"

definition headers_ok :: "handler \<Rightarrow> bool" where
  "headers_ok st =
     (no_fixed (headers_buffer st) \<and> list_all has_fixed_headers (header_blocks (wfile st)))"

definition clean :: "string \<Rightarrow> bool" where
  "clean rest = (rest = [] \<or> (last rest \<noteq> CHR ''/'' \<and> ''..'' \<notin> set (split_on CHR ''/'' rest)))"

definition parsed :: "handler \<Rightarrow> string \<Rightarrow> string \<Rightarrow> string \<Rightarrow> string \<Rightarrow> handler" where
  "parsed st0 line cmd target ver =
     st0\<lparr>command := Some cmd, path := target, request_version := ver,
         requestline := line, headers := (\<lambda>_. None), close_connection := True\<rparr>"

definition ok_headers :: "variant \<Rightarrow> host \<Rightarrow> string \<Rightarrow> string \<Rightarrow> hline list" where
  "ok_headers v h p data =
     response_head h 200 ''OK'' @
       [HeaderLine ''Content-type'' (guess_type v h p),
        HeaderLine ''Content-Length'' (str_nat (length data)),
        HeaderLine ''Last-Modified'' (mtime_string h p)]
       @ fixed_headers @ [BlankLine]"

definition error_headers :: "host \<Rightarrow> nat \<Rightarrow> string \<Rightarrow> string \<Rightarrow> hline list" where
  "error_headers h code m e =
     response_head h code m @
       [HeaderLine ''Connection'' ''close'', HeaderLine ''Content-Type'' error_content_type,
        HeaderLine ''Content-Length'' (str_nat (length (error_page h code m e)))]
       @ fixed_headers @ [BlankLine]"

section \<open>Properties\<close>

subsection \<open>The scripts: start, interrupt, working directory\<close>

lemma cwd_process_request: "cwd (process_request v h c p) = cwd p"
  by (simp add: process_request_def Let_def)

lemma serve_forever_connections:
  "serve_forever v h (map Connection cs @ Raise e # rest) p =
     (foldl (\<lambda>q c. process_request v h c q) p cs, Some e)"
  by (induction cs arbitrary: p) simp_all

lemma cwd_serve_forever: "cwd (fst (serve_forever v h evs p)) = cwd p"
  by (induction v h evs p rule: serve_forever.induct) (simp_all add: cwd_process_request)

lemma cwd_print: "cwd (print s p) = cwd p"
  by (simp add: print_def)

lemma stdout_print: "stdout (print s p) = stdout p @ [s]"
  by (simp add: print_def)

lemma cwd_simple_server_startup: "cwd (simple_server_startup h p) = DIRECTORY h"
  by (simp add: simple_server_startup_def Let_def)

lemma cwd_scripts_server_startup: "cwd (scripts_server_startup h p) = cwd p"
  by (simp add: scripts_server_startup_def Let_def cwd_print)

lemma simple_server_raise:
  "simple_server h None (map Connection cs @ Raise e # rest) p =
     (let p' = foldl (\<lambda>q c. process_request SimpleServer h c q)
                 (print ''Server started successfully. Press Ctrl+C to stop.''
                    (simple_server_startup h p)) cs
      in case e of
           KeyboardInterrupt \<Rightarrow> (print (newline # ''Server stopped by user.'') p', Finished)
         | Exception m \<Rightarrow> (print (''Error starting server: '' @ m) p', Finished))"
  unfolding simple_server_def Let_def serve_forever_connections by (cases e) simp_all

lemma scripts_server_raise:
  "scripts_server h None (map Connection cs @ Raise e # rest) p =
     (let p' = foldl (\<lambda>q c. process_request ScriptsServer h c q) (scripts_server_startup h p) cs
      in case e of
           KeyboardInterrupt \<Rightarrow> (print (newline # ''Server stopped.'') p', Finished)
         | Exception m \<Rightarrow> (p', Uncaught (Exception m)))"
  unfolding scripts_server_def Let_def serve_forever_connections by (cases e) simp_all

lemma simple_server_bind_error:
  "simple_server h (Some e) evs p =
     (case e of
        KeyboardInterrupt \<Rightarrow>
          (print (newline # ''Server stopped by user.'') (simple_server_startup h p), Finished)
      | Exception m \<Rightarrow>
          (print (''Error starting server: '' @ m) (simple_server_startup h p), Finished))"
  unfolding simple_server_def Let_def by (cases e) simp_all

lemma scripts_server_bind_error:
  "scripts_server h (Some e) evs p = (scripts_server_startup h p, Uncaught e)"
  unfolding scripts_server_def Let_def by simp

text \<open>
  Claim C4, as the code has it. When the construction of the server raises an
  \<^verbatim>\<open>Exception\<close> (the port is taken), simple-server.py catches it, prints
  \<^verbatim>\<open>Error starting server: <message>\<close> on standard output and runs off its end, so the
  exit status is 0. scripts/server.py constructs the server outside its \<^verbatim>\<open>try\<close> and has
  no clause for \<^verbatim>\<open>Exception\<close>: it prints nothing after its three start-up lines and the
  exception is uncaught, so the interpreter ends with status 1.
\<close>

theorem startup_error_report_and_status:
  "simple_server h (Some (Exception msg)) evs p =
     (print (''Error starting server: '' @ msg) (simple_server_startup h p), Finished)
   \<and> exit_status (snd (simple_server h (Some (Exception msg)) evs p)) = Some 0
   \<and> scripts_server h (Some (Exception msg)) evs p =
     (scripts_server_startup h p, Uncaught (Exception msg))
   \<and> exit_status (snd (scripts_server h (Some (Exception msg)) evs p)) = Some 1"
  unfolding simple_server_bind_error scripts_server_bind_error
  by (simp add: exit_status_def)

text \<open>
  Claim C4 as stated fails: with port 8080 taken, simple-server.py ends with exit
  status 0, not with a non-zero one.
\<close>

theorem simple_server_bind_failure_exits_0:
  "exit_status (snd (run SimpleServer example_host
      (Some (Exception ''[Errno 98] Address already in use'')) [] example_process)) = Some 0"
  by (simp add: run_def simple_server_bind_error exit_status_def)

text \<open>
  Claim C5. The port is bound, any number of connections are served, then Ctrl-C raises
  KeyboardInterrupt inside \<^verbatim>\<open>serve_forever\<close>: in both scripts the \<^verbatim>\<open>except\<close> clause
  prints the stop message as the last line of standard output and the script runs off
  its end, exit status 0.
\<close>

theorem interrupt_while_serving_exits_0:
  "snd (run v h None (map Connection cs @ Raise KeyboardInterrupt # rest) p) = Finished
   \<and> exit_status (snd (run v h None (map Connection cs @ Raise KeyboardInterrupt # rest) p)) = Some 0
   \<and> last (stdout (fst (run v h None (map Connection cs @ Raise KeyboardInterrupt # rest) p))) =
       (case v of SimpleServer \<Rightarrow> newline # ''Server stopped by user.''
                | ScriptsServer \<Rightarrow> newline # ''Server stopped.'')"
proof (cases v)
  case SimpleServer
  then show ?thesis
    unfolding run_def simple_server_raise Let_def
    by (simp add: stdout_print exit_status_def)
next
  case ScriptsServer
  then show ?thesis
    unfolding run_def scripts_server_raise Let_def
    by (simp add: stdout_print exit_status_def)
qed

lemma cwd_simple_server: "cwd (fst (simple_server h bind_error evs p)) = DIRECTORY h"
proof (cases bind_error)
  case None
  define p0 where "p0 = print ''Server started successfully. Press Ctrl+C to stop.''
        (simple_server_startup h p)"
  obtain p' r where sf: "serve_forever SimpleServer h evs p0 = (p', r)"
    by (cases "serve_forever SimpleServer h evs p0") blast
  have "cwd p' = cwd (fst (serve_forever SimpleServer h evs p0))"
    using sf by simp
  also have "\<dots> = cwd p0"
    by (rule cwd_serve_forever)
  also have "\<dots> = DIRECTORY h"
    by (simp add: p0_def cwd_print cwd_simple_server_startup)
  finally have c: "cwd p' = DIRECTORY h" .
  have "fst (simple_server h bind_error evs p) = p'
        \<or> (\<exists>s. fst (simple_server h bind_error evs p) = print s p')"
    using None sf unfolding simple_server_def p0_def Let_def
    by (auto split: option.splits exc.splits)
  with c show ?thesis
    by (auto simp add: cwd_print)
next
  case (Some e)
  then show ?thesis
    by (cases e) (simp_all add: simple_server_bind_error cwd_print cwd_simple_server_startup)
qed

lemma cwd_scripts_server: "cwd (fst (scripts_server h bind_error evs p)) = cwd p"
proof (cases bind_error)
  case None
  define p0 where "p0 = scripts_server_startup h p"
  obtain p' r where sf: "serve_forever ScriptsServer h evs p0 = (p', r)"
    by (cases "serve_forever ScriptsServer h evs p0") blast
  have "cwd p' = cwd (fst (serve_forever ScriptsServer h evs p0))"
    using sf by simp
  also have "\<dots> = cwd p0"
    by (rule cwd_serve_forever)
  also have "\<dots> = cwd p"
    by (simp add: p0_def cwd_scripts_server_startup)
  finally have c: "cwd p' = cwd p" .
  have "fst (scripts_server h bind_error evs p) = p'
        \<or> (\<exists>s. fst (scripts_server h bind_error evs p) = print s p')"
    using None sf unfolding scripts_server_def p0_def Let_def
    by (auto split: option.splits exc.splits)
  with c show ?thesis
    by (auto simp add: cwd_print)
next
  case (Some e)
  then show ?thesis
    by (simp add: scripts_server_bind_error cwd_scripts_server_startup)
qed

text \<open>
  Claim C9. However it ends, a run of simple-server.py leaves the process in the
  script's directory (\<^verbatim>\<open>os.chdir(DIRECTORY)\<close>), and its handlers take the directory they
  serve from the working directory of the process at the time they are built. A run of
  scripts/server.py leaves the working directory as it found it, and its handlers are
  given \<^verbatim>\<open>DIRECTORY\<close> whatever the working directory is.
\<close>

theorem chdir_only_in_simple_server:
  "cwd (fst (simple_server h bind_error evs p)) = DIRECTORY h
   \<and> directory (new_handler SimpleServer h q) = cwd q
   \<and> cwd (fst (scripts_server h bind_error evs p)) = cwd p
   \<and> directory (new_handler ScriptsServer h q) = DIRECTORY h"
  by (simp add: cwd_simple_server cwd_scripts_server new_handler_def
        CustomHTTPRequestHandler_init_def SimpleHTTPRequestHandler_init_def)

subsection \<open>The fixed headers\<close>

lemma header_values_append: "header_values k (xs @ ys) = header_values k xs @ header_values k ys"
  by (simp add: header_values_def)

lemma header_blocks_append: "header_blocks (xs @ ys) = header_blocks xs @ header_blocks ys"
  by (simp add: header_blocks_def)

lemma not_reserved:
  "\<not> reserved ''Server''" "\<not> reserved ''Date''" "\<not> reserved ''Connection''"
  "\<not> reserved ''Content-Type''" "\<not> reserved ''Content-type''" "\<not> reserved ''Content-Length''"
  "\<not> reserved ''Location''" "\<not> reserved ''Last-Modified''"
  by (simp_all add: reserved_def lower_def lower_char_def Let_def)

lemma fixed_tail: "has_fixed_headers (fixed_headers @ [BlankLine])"
  by (simp add: has_fixed_headers_def fixed_headers_def header_values_def lower_def
        lower_char_def Let_def)

lemma fixed_block: "no_fixed buf \<Longrightarrow> has_fixed_headers (buf @ fixed_headers @ [BlankLine])"
  using fixed_tail
  by (simp add: has_fixed_headers_def no_fixed_def header_values_append)

lemma headers_ok_update [simp]:
  "headers_ok (st\<lparr>command := c\<rparr>) = headers_ok st"
  "headers_ok (st\<lparr>path := pa\<rparr>) = headers_ok st"
  "headers_ok (st\<lparr>request_version := rv\<rparr>) = headers_ok st"
  "headers_ok (st\<lparr>requestline := rl\<rparr>) = headers_ok st"
  "headers_ok (st\<lparr>headers := hs\<rparr>) = headers_ok st"
  "headers_ok (st\<lparr>close_connection := b\<rparr>) = headers_ok st"
  "headers_ok (st\<lparr>stderr := e\<rparr>) = headers_ok st"
  "headers_ok (st\<lparr>directory := d\<rparr>) = headers_ok st"
  by (simp_all add: headers_ok_def)

lemma headers_ok_body [simp]: "headers_ok (st\<lparr>wfile := wfile st @ [Body b]\<rparr>) = headers_ok st"
  by (simp add: headers_ok_def header_blocks_def)

lemma headers_ok_send_header [simp]:
  "\<not> reserved k \<Longrightarrow> headers_ok st \<Longrightarrow> headers_ok (send_header k v st)"
  by (auto simp add: send_header_def headers_ok_def no_fixed_def header_values_def
        reserved_def Let_def)

lemma headers_ok_send_response_only [simp]:
  "headers_ok st \<Longrightarrow> headers_ok (send_response_only code m st)"
  by (auto simp add: send_response_only_def headers_ok_def no_fixed_def header_values_def Let_def)

lemma log_message_eq: "log_message v h m st = st\<lparr>stderr := stderr st @ [log_line v h m]\<rparr>"
  by (cases v) (simp_all add: log_message_def log_line_def CORSRequestHandler_log_message_def
        base_log_message_def)

lemma lower_keys:
  "lower ''Server'' \<noteq> ''connection''" "lower ''Date'' \<noteq> ''connection''"
  "lower ''Content-Type'' \<noteq> ''connection''" "lower ''Content-type'' \<noteq> ''connection''"
  "lower ''Content-Length'' \<noteq> ''connection''" "lower ''Location'' \<noteq> ''connection''"
  "lower ''Last-Modified'' \<noteq> ''connection''"
  "lower ''Access-Control-Allow-Origin'' \<noteq> ''connection''"
  "lower ''Access-Control-Allow-Methods'' \<noteq> ''connection''"
  "lower ''Cache-Control'' \<noteq> ''connection''"
  by (simp_all add: lower_def lower_char_def Let_def)

lemma lower_connection_close:
  "lower ''Connection'' = ''connection''" "lower ''close'' = ''close''"
  by code_simp+

lemma send_header_plain:
  "lower k \<noteq> ''connection'' \<Longrightarrow>
   send_header k v st =
     (if request_version st \<noteq> ''HTTP/0.9''
      then st\<lparr>headers_buffer := headers_buffer st @ [HeaderLine k v]\<rparr> else st)"
  by (simp add: send_header_def Let_def)

lemma send_header_connection_close:
  "send_header ''Connection'' ''close'' st =
     (if request_version st \<noteq> ''HTTP/0.9''
      then st\<lparr>headers_buffer := headers_buffer st @ [HeaderLine ''Connection'' ''close''],
              close_connection := True\<rparr>
      else st\<lparr>close_connection := True\<rparr>)"
  by (simp add: send_header_def Let_def lower_connection_close)

text \<open>Both scripts define the same \<^verbatim>\<open>end_headers\<close>: where the request version is not
  HTTP/0.9 it writes the buffered lines, the three fixed lines and the blank line as one
  block; for HTTP/0.9 it writes nothing.\<close>

lemma end_headers_eq:
  "end_headers v st =
     (if request_version st \<noteq> ''HTTP/0.9'' then
        st\<lparr>wfile := wfile st @ [HeaderBlock (headers_buffer st @ fixed_headers @ [BlankLine])],
           headers_buffer := []\<rparr>
      else st)"
  by (cases v)
     (simp_all add: end_headers_def CORSRequestHandler_end_headers_def
        CustomHTTPRequestHandler_end_headers_def send_header_plain lower_keys
        base_end_headers_def flush_headers_def fixed_headers_def Let_def)

lemma headers_ok_end_headers [simp]: "headers_ok st \<Longrightarrow> headers_ok (end_headers v st)"
  unfolding end_headers_eq
  by (auto simp add: headers_ok_def header_blocks_def fixed_block no_fixed_def header_values_def)

lemma headers_ok_send_response [simp]:
  "headers_ok st \<Longrightarrow> headers_ok (send_response v h code m st)"
  by (simp add: send_response_def log_request_def log_message_eq Let_def not_reserved)

lemma headers_ok_send_error [simp]:
  "headers_ok st \<Longrightarrow> headers_ok (send_error v h code m e st)"
  by (simp add: send_error_def log_error_def log_message_eq Let_def not_reserved split_def)

lemma headers_ok_list_directory [simp]:
  "headers_ok st \<Longrightarrow> headers_ok (snd (list_directory v h p st))"
  by (simp add: list_directory_def Let_def not_reserved split: option.splits)

lemma headers_ok_serve_file [simp]:
  "headers_ok st \<Longrightarrow> headers_ok (snd (serve_file v h p st))"
  by (simp add: serve_file_def Let_def not_reserved split: option.splits)

lemma headers_ok_send_head [simp]: "headers_ok st \<Longrightarrow> headers_ok (snd (send_head v h st))"
  by (simp add: send_head_def Let_def not_reserved)

lemma headers_ok_do_GET [simp]: "headers_ok st \<Longrightarrow> headers_ok (do_GET v h st)"
  using headers_ok_send_head [of st v h]
  by (cases "send_head v h st") (auto simp add: do_GET_def split: option.splits)

lemma headers_ok_do_HEAD [simp]: "headers_ok st \<Longrightarrow> headers_ok (do_HEAD v h st)"
  by (simp add: do_HEAD_def)

lemma headers_ok_handle_expect_100 [simp]:
  "headers_ok st \<Longrightarrow> headers_ok (handle_expect_100 v st)"
  by (simp add: handle_expect_100_def)

lemma headers_ok_check_version:
  "headers_ok st \<Longrightarrow>
   (case check_version v h ws st of Inl st' \<Rightarrow> headers_ok st' | Inr st' \<Rightarrow> headers_ok st')"
  by (simp add: check_version_def Let_def split: option.splits prod.splits)

lemma headers_ok_examine_headers [simp]:
  "headers_ok st \<Longrightarrow> headers_ok (snd (examine_headers v h req st))"
  by (simp add: examine_headers_def Let_def split: header_section.splits)

lemma headers_ok_parse_request [simp]:
  assumes "headers_ok st"
  shows "headers_ok (snd (parse_request v h req st))"
proof -
  define line where "line = rstrip_chars [CHR 0x0D, newline] (raw_requestline req)"
  define st1 where "st1 = st\<lparr>command := None, request_version := default_request_version,
                    close_connection := True, requestline := line\<rparr>"
  have i1: "headers_ok st1"
    using assms by (simp add: st1_def)
  show ?thesis
  proof (cases "check_version v h (split_ws line) st1")
    case (Inl a)
    with headers_ok_check_version [OF i1, of v h "split_ws line"] have "headers_ok a"
      by simp
    with Inl i1 show ?thesis
      by (simp add: parse_request_def Let_def line_def [symmetric] st1_def [symmetric])
  next
    case (Inr b)
    with headers_ok_check_version [OF i1, of v h "split_ws line"] have "headers_ok b"
      by simp
    with Inr i1 show ?thesis
      by (simp add: parse_request_def Let_def line_def [symmetric] st1_def [symmetric])
  qed
qed

lemma headers_ok_handle_one_request [simp]:
  "headers_ok st \<Longrightarrow> headers_ok (handle_one_request v h req st)"
  using headers_ok_parse_request [of st v h req]
  by (cases "parse_request v h req st") (simp add: handle_one_request_def split: bool.splits)

lemma headers_ok_handle_requests: "headers_ok st \<Longrightarrow> headers_ok (handle_requests v h reqs st)"
  by (induction reqs arbitrary: st) (simp_all add: Let_def)

lemma headers_ok_new_handler: "headers_ok (new_handler v h p)"
  by (cases v) (simp_all add: new_handler_def CustomHTTPRequestHandler_init_def
       SimpleHTTPRequestHandler_init_def headers_ok_def no_fixed_def header_values_def
       header_blocks_def)


subsection \<open>What the primitives of a response do\<close>

lemma protocol_below_11: "\<not> ''HTTP/1.1'' \<le> protocol_version"
  by (simp add: protocol_version_def)

lemma responses_values:
  "responses 200 = Some (''OK'', ''Request fulfilled, document follows'')"
  "responses 301 = Some (''Moved Permanently'', ''Object moved permanently -- see URI list'')"
  "responses 304 = Some (''Not Modified'', ''Document has not changed since given time'')"
  "responses 404 = Some (''Not Found'', ''Nothing matches the given URI'')"
  by (simp_all add: responses_def)

lemma send_response_eq:
  "send_response v h code (Some m) st =
     (if request_version st \<noteq> ''HTTP/0.9'' then
        st\<lparr>stderr := stderr st @ [log_line v h (request_log_message (requestline st) code)],
           headers_buffer := headers_buffer st @ response_head h code m\<rparr>
      else st\<lparr>stderr := stderr st @ [log_line v h (request_log_message (requestline st) code)]\<rparr>)"
  by (simp add: send_response_def log_request_def log_message_eq send_response_only_def
       send_header_plain lower_keys response_head_def request_log_message_def Let_def)

lemma send_response_None:
  "responses code = Some (m, e) \<Longrightarrow>
   send_response v h code None st = send_response v h code (Some m) st"
  by (simp add: send_response_def send_response_only_def Let_def)

lemma send_error_404:
  assumes "request_version st \<noteq> ''HTTP/0.9''"
  shows "send_error v h 404 (Some m) None st =
     st\<lparr>stderr := stderr st @ [log_line v h (''code '' @ str_nat 404 @ '', message '' @ m),
                               log_line v h (request_log_message (requestline st) 404)],
        close_connection := True,
        headers_buffer := [],
        wfile := wfile st
          @ [HeaderBlock (headers_buffer st @ error_headers h 404 m ''Nothing matches the given URI'')]
          @ (if command st \<noteq> Some ''HEAD'' \<and> error_page h 404 m ''Nothing matches the given URI'' \<noteq> []
             then [Body (error_page h 404 m ''Nothing matches the given URI'')] else [])\<rparr>"
  using assms
  by (simp add: send_error_def responses_values log_error_def log_message_eq send_response_eq
       send_header_connection_close send_header_plain lower_keys end_headers_eq error_headers_def
       Let_def)

lemma isdir_Regular: "fs h p = Regular d \<Longrightarrow> \<not> isdir h p"
  by (simp add: isdir_def)

lemma open_rb_Regular: "fs h p = Regular d \<Longrightarrow> open_rb h p = d"
  by (cases d) (simp_all add: open_rb_def)

lemma serve_file_200:
  assumes "request_version st \<noteq> ''HTTP/0.9''" and "open_rb h p = Some data"
      and "\<not> endswith p ''/''" and "\<not> use_browser_cache h p st"
  shows "serve_file v h p st =
     (Some data,
      st\<lparr>stderr := stderr st @ [log_line v h (request_log_message (requestline st) 200)],
         headers_buffer := [],
         wfile := wfile st @
           [HeaderBlock (headers_buffer st @ ok_headers v h p data)]\<rparr>)"
  using assms
  by (simp add: serve_file_def send_response_None [OF responses_values(1)] send_response_eq
       send_header_plain lower_keys end_headers_eq ok_headers_def Let_def)

lemma serve_file_200_http09:
  assumes "request_version st = ''HTTP/0.9''" and "open_rb h p = Some data"
      and "\<not> endswith p ''/''" and "\<not> use_browser_cache h p st"
  shows "serve_file v h p st =
     (Some data,
      st\<lparr>stderr := stderr st @ [log_line v h (request_log_message (requestline st) 200)]\<rparr>)"
  using assms
  by (simp add: serve_file_def send_response_None [OF responses_values(1)] send_response_eq
       send_header_plain lower_keys end_headers_eq Let_def)

lemma serve_file_404:
  assumes "open_rb h p = None"
  shows "serve_file v h p st = (None, send_error v h 404 (Some ''File not found'') None st)"
  using assms by (simp add: serve_file_def Let_def)

lemma send_head_not_dir:
  "\<not> isdir h (translate_path h (directory st) (path st)) \<Longrightarrow>
   send_head v h st = serve_file v h (translate_path h (directory st) (path st)) st"
  by (simp add: send_head_def Let_def)

subsection \<open>What parsing a request leaves behind\<close>

lemma split_ws_empty: "split_ws (rstrip_chars cs []) = []"
  by (simp add: split_ws_def rstrip_chars_def)

text \<open>A request that \<^verbatim>\<open>parse_request\<close> accepts has written nothing yet: the only write
  of a successful parse is the 100 Continue response, which needs protocol version
  HTTP/1.1, and the handlers speak HTTP/1.0.\<close>

lemma parse_request_True:
  assumes "parse_request v h req st0 = (True, st)"
  shows "wfile st = wfile st0 \<and> headers_buffer st = headers_buffer st0
         \<and> directory st = directory st0 \<and> stderr st = stderr st0
         \<and> raw_requestline req \<noteq> []"
proof -
  define line where "line = rstrip_chars [CHR 0x0D, newline] (raw_requestline req)"
  define st1 where "st1 = st0\<lparr>command := None, request_version := default_request_version,
                    close_connection := True, requestline := line\<rparr>"
  have ne: "raw_requestline req \<noteq> []"
  proof
    assume "raw_requestline req = []"
    then have "parse_request v h req st0 = (False, st1)"
      by (simp add: parse_request_def Let_def split_ws_empty st1_def line_def)
    with assms show False by simp
  qed
  obtain st2 where cv: "check_version v h (split_ws line) st1 = Inr st2"
    using assms
    by (cases "check_version v h (split_ws line) st1")
       (simp_all add: parse_request_def Let_def line_def [symmetric] st1_def [symmetric]
          split: if_splits)
  have s2: "wfile st2 = wfile st0 \<and> headers_buffer st2 = headers_buffer st0
         \<and> directory st2 = directory st0 \<and> stderr st2 = stderr st0"
    using cv
    by (auto simp add: check_version_def Let_def st1_def protocol_below_11
          split: if_splits option.splits prod.splits)
  obtain st3 where eh: "examine_headers v h req st3 = (True, st)"
     and s3: "wfile st3 = wfile st2 \<and> headers_buffer st3 = headers_buffer st2
         \<and> directory st3 = directory st2 \<and> stderr st3 = stderr st2"
    using assms cv
    by (simp add: parse_request_def Let_def line_def [symmetric] st1_def [symmetric]
          split: if_splits)
  have "wfile st = wfile st3 \<and> headers_buffer st = headers_buffer st3
         \<and> directory st = directory st3 \<and> stderr st = stderr st3"
    using eh
    by (auto simp add: examine_headers_def Let_def protocol_below_11
          split: header_section.splits if_splits)
  with s2 s3 ne show ?thesis
    by simp
qed

lemma handle_one_request_parsed:
  assumes "length (raw_requestline req) \<le> 65536" and "parse_request v h req st0 = (True, st)"
  shows "handle_one_request v h req st0 =
     (if command st = Some ''GET'' then do_GET v h st
      else if command st = Some ''HEAD'' then do_HEAD v h st
      else send_error v h 501
             (Some (''Unsupported method (''
                      @ py_repr h (case command st of Some c \<Rightarrow> c | None \<Rightarrow> []) @ '')''))
             None st)"
  using assms parse_request_True [OF assms(2)]
  by (simp add: handle_one_request_def)

text \<open>Parsing the request lines used as examples: three words with a version below
  2.0, or the two words of an HTTP/0.9 request.\<close>

lemma parse_bare_request:
  assumes "split_ws line = [cmd, target, ver]"
      and "rstrip_chars [CHR 0x0D, newline] (line @ [CHR 0x0D, newline]) = line"
      and "parse_version ver = Some (major, minor)" and "major < 2"
      and "\<not> startswith target ''//''"
  shows "parse_request v h (bare_request line) st0 =
     (True, st0\<lparr>command := Some cmd, path := target, request_version := ver,
               requestline := line, headers := (\<lambda>_. None), close_connection := True\<rparr>)"
  using assms
  by (simp add: parse_request_def bare_request_def check_version_def examine_headers_def
        protocol_below_11 Let_def lower_def)

lemma parse_bare_request_http09:
  assumes "split_ws line = [''GET'', target]"
      and "rstrip_chars [CHR 0x0D, newline] (line @ [CHR 0x0D, newline]) = line"
      and "\<not> startswith target ''//''"
  shows "parse_request v h (bare_request line) st0 =
     (True, st0\<lparr>command := Some ''GET'', path := target, request_version := ''HTTP/0.9'',
               requestline := line, headers := (\<lambda>_. None), close_connection := True\<rparr>)"
  using assms
  by (simp add: parse_request_def bare_request_def check_version_def examine_headers_def
        protocol_below_11 default_request_version_def Let_def lower_def)

lemma http11: "parse_version ''HTTP/1.1'' = Some (1, 1)"
  by code_simp

lemma len_bare: "length line \<le> 65534 \<Longrightarrow> length (raw_requestline (bare_request line)) \<le> 65536"
  by (simp add: bare_request_def)

subsection \<open>The served path\<close>

lemma split_on_nonempty: "split_on c s \<noteq> []"
  by (induction s) (auto split: list.splits)

lemma split_on_append_sep: "split_on c (xs @ c # ys) = split_on c xs @ split_on c ys"
proof (induction xs)
  case Nil
  then show ?case by simp
next
  case (Cons x xs)
  then show ?case
    using split_on_nonempty [of c xs]
    by (cases "split_on c xs") auto
qed

lemma split_on_no_sep: "c \<notin> set w \<Longrightarrow> split_on c w = [w]"
  by (induction w) auto

lemma split_on_parts: "w \<in> set (split_on c s) \<Longrightarrow> c \<notin> set w"
proof (induction s arbitrary: w)
  case Nil
  then show ?case by simp
next
  case (Cons x s)
  show ?case
  proof (cases "x = c")
    case True
    with Cons show ?thesis by auto
  next
    case False
    obtain u us where u: "split_on c s = u # us"
      using split_on_nonempty [of c s] by (cases "split_on c s") auto
    with Cons.prems False have "w = x # u \<or> w \<in> set us"
      by auto
    then show ?thesis
    proof
      assume "w = x # u"
      moreover have "c \<notin> set u"
        using Cons.IH [of u] u by simp
      ultimately show ?thesis using False by auto
    next
      assume "w \<in> set us"
      then show ?thesis using Cons.IH [of w] u by simp
    qed
  qed
qed

lemma endswith_single: "endswith s [c] = (s \<noteq> [] \<and> last s = c)"
proof (cases s rule: rev_cases)
  case Nil
  then show ?thesis by (simp add: endswith_def)
next
  case (snoc ys y)
  then show ?thesis by (auto simp add: endswith_def)
qed

lemma last_not_sep: "w \<noteq> [] \<Longrightarrow> c \<notin> set w \<Longrightarrow> last w \<noteq> c"
  using last_in_set [of w] by auto

text \<open>One round of the loop of \<^verbatim>\<open>translate_path\<close>: joining a plain name to the
  directory followed by a clean suffix gives the directory followed by a clean suffix.\<close>

lemma join_step:
  assumes "clean rest" and "CHR ''/'' \<notin> set w" and "w \<noteq> []" and "w \<noteq> ''..''"
  shows "\<exists>rest'. posix_join (dir @ rest) w = dir @ rest' \<and> clean rest'"
proof (cases "rest = []")
  case True
  have "posix_join dir w = dir @ w \<or> posix_join dir w = dir @ CHR ''/'' # w"
    using assms(2,3) by (cases w) (auto simp add: posix_join_def startswith_def)
  moreover have "clean w"
    using assms by (simp add: clean_def split_on_no_sep last_not_sep)
  moreover have "clean (CHR ''/'' # w)"
    using assms split_on_append_sep [of "CHR ''/''" "[]" w]
    by (simp add: clean_def split_on_no_sep last_not_sep)
  ultimately show ?thesis
    using True by auto
next
  case False
  with assms(1) have l: "last rest \<noteq> CHR ''/''" and d: "''..'' \<notin> set (split_on CHR ''/'' rest)"
    by (simp_all add: clean_def)
  have "\<not> endswith (dir @ rest) ''/''"
    using False l by (simp add: endswith_single)
  moreover have "\<not> startswith w ''/''"
    using assms(2,3) by (cases w) (auto simp add: startswith_def)
  ultimately have "posix_join (dir @ rest) w = dir @ (rest @ CHR ''/'' # w)"
    using False by (simp add: posix_join_def)
  moreover have "clean (rest @ CHR ''/'' # w)"
    using assms d by (simp add: clean_def split_on_append_sep split_on_no_sep last_not_sep)
  ultimately show ?thesis
    by blast
qed

lemma join_loop:
  assumes "\<forall>w \<in> set ws. CHR ''/'' \<notin> set w \<and> w \<noteq> []" and "clean rest"
  shows "\<exists>rest'. foldl (\<lambda>acc word.
                  if posix_dirname word \<noteq> [] \<or> word = ''.'' \<or> word = ''..'' then acc
                  else posix_join acc word) (dir @ rest) ws = dir @ rest' \<and> clean rest'"
  using assms
proof (induction ws arbitrary: rest)
  case Nil
  then show ?case by simp
next
  case (Cons w ws)
  show ?case
  proof (cases "posix_dirname w \<noteq> [] \<or> w = ''.'' \<or> w = ''..''")
    case True
    with Cons show ?thesis by simp
  next
    case False
    with Cons.prems obtain rest' where
      "posix_join (dir @ rest) w = dir @ rest'" and "clean rest'"
      using join_step [of rest w dir] by auto
    with Cons.IH [of rest'] Cons.prems False show ?thesis
      by simp
  qed
qed


subsection \<open>The content type\<close>

lemma endswith_append: "endswith (ys @ t) t"
  by (simp add: endswith_def)

lemma endswith_decomp: "endswith s t \<Longrightarrow> \<exists>ys. s = ys @ t"
  by (metis append_take_drop_id endswith_def)

lemma endswith_js_not_slash:
  assumes "endswith p ''.js''"
  shows "\<not> endswith p ''/''"
proof -
  obtain ys where "p = ys @ ''.js''"
    using endswith_decomp [OF assms] by blast
  then show ?thesis
    by (simp add: endswith_def)
qed

text \<open>The extension \<^verbatim>\<open>splitext\<close> returns is a suffix of the path.\<close>

lemma splitext_suffix:
  assumes "snd (splitext p) = e" and "e \<noteq> []"
  shows "endswith p e"
proof -
  define name where "name = rev (takeWhile (\<lambda>x. x \<noteq> CHR ''/'') (rev p))"
  define ext where "ext = rev (takeWhile (\<lambda>x. x \<noteq> CHR ''.'') (rev name))"
  have e: "e = CHR ''.'' # ext" and dot: "CHR ''.'' \<in> set name"
    using assms unfolding splitext_def Let_def name_def [symmetric] ext_def [symmetric]
    by (auto split: if_splits)
  have "rev name = takeWhile (\<lambda>x. x \<noteq> CHR ''.'') (rev name) @ dropWhile (\<lambda>x. x \<noteq> CHR ''.'') (rev name)"
    by simp
  moreover have "dropWhile (\<lambda>x. x \<noteq> CHR ''.'') (rev name) \<noteq> []"
    using dot by (simp add: dropWhile_eq_Nil_conv)
  moreover have "hd (dropWhile (\<lambda>x. x \<noteq> CHR ''.'') (rev name)) = CHR ''.''"
    using calculation(2) hd_dropWhile [of "\<lambda>x. x \<noteq> CHR ''.''" "rev name"] by auto
  ultimately obtain r where "rev name = rev ext @ CHR ''.'' # r"
    unfolding ext_def by (cases "dropWhile (\<lambda>x. x \<noteq> CHR ''.'') (rev name)") auto
  then have n: "name = rev r @ CHR ''.'' # ext"
    by (metis rev_append rev.simps(2) rev_rev_ident append.assoc append_Cons append_Nil)
  have "rev p = takeWhile (\<lambda>x. x \<noteq> CHR ''/'') (rev p) @ dropWhile (\<lambda>x. x \<noteq> CHR ''/'') (rev p)"
    by simp
  then have "p = rev (dropWhile (\<lambda>x. x \<noteq> CHR ''/'') (rev p)) @ name"
    unfolding name_def by (metis rev_append rev_rev_ident)
  with n e have "p = (rev (dropWhile (\<lambda>x. x \<noteq> CHR ''/'') (rev p)) @ rev r) @ e"
    by simp
  then show ?thesis
    using endswith_append by metis
qed

lemma css_not_js:
  assumes "snd (splitext p) = ''.css''"
  shows "\<not> endswith p ''.js''" and "\<not> endswith p ''/''"
proof -
  obtain ys where "p = ys @ ''.css''"
    using splitext_suffix [OF assms] endswith_decomp by blast
  then show "\<not> endswith p ''.js''" and "\<not> endswith p ''/''"
    by (simp_all add: endswith_def)
qed

lemma lower_css: "lower ''.css'' = ''.css''"
  by code_simp

lemma base_guess_type_css:
  assumes "snd (splitext p) = ''.css''"
  shows "base_guess_type db p =
     (case db ''.css'' of Some g \<Rightarrow> (if g \<noteq> [] then g else ''application/octet-stream'')
                        | None \<Rightarrow> ''application/octet-stream'')"
proof -
  obtain b where s: "splitext p = (b, ''.css'')"
    using assms by (cases "splitext p") simp
  have "mimetypes_guess_type db p = db ''.css''"
    by (simp add: mimetypes_guess_type_def s lower_css suffix_map_def encodings_map_def Let_def)
  then show ?thesis
    by (simp add: base_guess_type_def s extensions_map_def lower_css Let_def)
qed

lemma guess_type_js:
  "endswith p ''.js'' \<Longrightarrow>
   guess_type v h p = (case v of ScriptsServer \<Rightarrow> ''application/javascript''
                                | SimpleServer \<Rightarrow> base_guess_type (types_map h) p)"
  by (cases v) (simp_all add: guess_type_def CustomHTTPRequestHandler_guess_type_def mimetypes_db_def)

lemma guess_type_css:
  assumes "snd (splitext p) = ''.css''"
  shows "guess_type v h p =
     (case v of
        ScriptsServer \<Rightarrow> ''text/css''
      | SimpleServer \<Rightarrow>
          (case types_map h ''.css'' of
             Some g \<Rightarrow> (if g \<noteq> [] then g else ''application/octet-stream'')
           | None \<Rightarrow> ''application/octet-stream''))"
  using css_not_js(1) [OF assms]
  by (cases v)
     (simp_all add: guess_type_def CustomHTTPRequestHandler_guess_type_def mimetypes_db_def
        base_guess_type_css [OF assms] add_type_def)

subsection \<open>The response to a parsed request\<close>

lemma send_head_file:
  assumes "request_version st \<noteq> ''HTTP/0.9''"
      and "fs h (translate_path h (directory st) (path st)) = Regular (Some data)"
      and "\<not> endswith (translate_path h (directory st) (path st)) ''/''"
      and "\<not> use_browser_cache h (translate_path h (directory st) (path st)) st"
  shows "send_head v h st =
     (Some data,
      st\<lparr>stderr := stderr st @ [log_line v h (request_log_message (requestline st) 200)],
         headers_buffer := [],
         wfile := wfile st @
           [HeaderBlock (headers_buffer st
              @ ok_headers v h (translate_path h (directory st) (path st)) data)]\<rparr>)"
  using assms
  by (simp add: send_head_not_dir isdir_Regular open_rb_Regular serve_file_200)

lemma file_response:
  assumes "length (raw_requestline req) \<le> 65536"
      and "parse_request v h req st0 = (True, st)"
      and "command st = Some ''GET'' \<or> command st = Some ''HEAD''"
      and "request_version st \<noteq> ''HTTP/0.9''"
      and "fs h (translate_path h (directory st) (path st)) = Regular (Some data)"
      and "\<not> endswith (translate_path h (directory st) (path st)) ''/''"
      and "\<not> use_browser_cache h (translate_path h (directory st) (path st)) st"
  shows "wfile (handle_one_request v h req st0) =
           wfile st0 @ [HeaderBlock (headers_buffer st0
              @ ok_headers v h (translate_path h (directory st) (path st)) data)]
           @ (if command st = Some ''GET'' \<and> data \<noteq> [] then [Body data] else [])"
    and "stderr (handle_one_request v h req st0) =
           stderr st0 @ [log_line v h (request_log_message (requestline st) 200)]"
  using assms(3) parse_request_True [OF assms(2)]
  unfolding handle_one_request_parsed [OF assms(1,2)]
  by (auto simp add: do_GET_def do_HEAD_def send_head_file [OF assms(4-7)])

lemma not_found_response:
  assumes "length (raw_requestline req) \<le> 65536"
      and "parse_request v h req st0 = (True, st)"
      and "command st = Some ''GET'' \<or> command st = Some ''HEAD''"
      and "request_version st \<noteq> ''HTTP/0.9''"
      and "\<not> isdir h (translate_path h (directory st) (path st))"
      and "open_rb h (translate_path h (directory st) (path st)) = None"
  shows "wfile (handle_one_request v h req st0) =
           wfile st0 @ [HeaderBlock (headers_buffer st0
              @ error_headers h 404 ''File not found'' ''Nothing matches the given URI'')]
           @ (if command st = Some ''GET''
                 \<and> error_page h 404 ''File not found'' ''Nothing matches the given URI'' \<noteq> []
              then [Body (error_page h 404 ''File not found'' ''Nothing matches the given URI'')]
              else [])"
    and "stderr (handle_one_request v h req st0) =
           stderr st0 @ [log_line v h (''code '' @ str_nat 404 @ '', message File not found''),
                         log_line v h (request_log_message (requestline st) 404)]"
proof -
  have sh: "send_head v h st = (None, send_error v h 404 (Some ''File not found'') None st)"
    by (simp add: send_head_not_dir [OF assms(5)] serve_file_404 [OF assms(6)])
  have pt: "wfile st = wfile st0" "headers_buffer st = headers_buffer st0" "stderr st = stderr st0"
    using parse_request_True [OF assms(2)] by simp_all
  show "wfile (handle_one_request v h req st0) =
           wfile st0 @ [HeaderBlock (headers_buffer st0
              @ error_headers h 404 ''File not found'' ''Nothing matches the given URI'')]
           @ (if command st = Some ''GET''
                 \<and> error_page h 404 ''File not found'' ''Nothing matches the given URI'' \<noteq> []
              then [Body (error_page h 404 ''File not found'' ''Nothing matches the given URI'')]
              else [])"
    using assms(3) pt
    unfolding handle_one_request_parsed [OF assms(1,2)]
    by (auto simp add: do_GET_def do_HEAD_def sh send_error_404 [OF assms(4)])
  show "stderr (handle_one_request v h req st0) =
           stderr st0 @ [log_line v h (''code '' @ str_nat 404 @ '', message File not found''),
                         log_line v h (request_log_message (requestline st) 404)]"
    using assms(3) pt
    unfolding handle_one_request_parsed [OF assms(1,2)]
    by (auto simp add: do_GET_def do_HEAD_def sh send_error_404 [OF assms(4)])
qed

lemma block_status:
  "status_codes (ok_headers v h p data) = [200]"
  "status_codes (error_headers h code m e) = [code]"
  by (simp_all add: status_codes_def ok_headers_def error_headers_def response_head_def
        fixed_headers_def)

lemma lower_values:
  "lower ''Server'' = ''server''" "lower ''Date'' = ''date''"
  "lower ''Content-Type'' = ''content-type''" "lower ''Content-type'' = ''content-type''"
  "lower ''Content-Length'' = ''content-length''" "lower ''Last-Modified'' = ''last-modified''"
  "lower ''Access-Control-Allow-Origin'' = ''access-control-allow-origin''"
  "lower ''Access-Control-Allow-Methods'' = ''access-control-allow-methods''"
  "lower ''Cache-Control'' = ''cache-control''"
  by code_simp+

lemma block_content_type:
  "header_values ''Content-Type'' (ok_headers v h p data) = [guess_type v h p]"
  "header_values ''Content-Type'' (error_headers h code m e) = [error_content_type]"
  by (simp_all add: header_values_def ok_headers_def error_headers_def response_head_def
        fixed_headers_def lower_values lower_connection_close)

lemma header_blocks_simps:
  "header_blocks [] = []"
  "header_blocks (HeaderBlock ls # cs) = ls # header_blocks cs"
  "header_blocks (Body b # cs) = header_blocks cs"
  by (simp_all add: header_blocks_def)

lemma new_handler_fresh:
  "wfile (new_handler v h p) = []" "headers_buffer (new_handler v h p) = []"
  "stderr (new_handler v h p) = []"
  by (cases v; simp add: new_handler_def CustomHTTPRequestHandler_init_def
        SimpleHTTPRequestHandler_init_def)+

lemma serve_forever_all_connections:
  "serve_forever v h (map Connection cs) p = (foldl (\<lambda>q c. process_request v h c q) p cs, None)"
  by (induction cs arbitrary: p) simp_all

subsection \<open>The example requests\<close>

lemma parsed_fields [simp]:
  "command (parsed st0 line cmd target ver) = Some cmd"
  "path (parsed st0 line cmd target ver) = target"
  "request_version (parsed st0 line cmd target ver) = ver"
  "requestline (parsed st0 line cmd target ver) = line"
  "directory (parsed st0 line cmd target ver) = directory st0"
  "wfile (parsed st0 line cmd target ver) = wfile st0"
  "headers_buffer (parsed st0 line cmd target ver) = headers_buffer st0"
  "stderr (parsed st0 line cmd target ver) = stderr st0"
  "\<not> use_browser_cache h p (parsed st0 line cmd target ver)"
  by (simp_all add: parsed_def use_browser_cache_def)

lemma parse_example:
  assumes "split_ws line = [cmd, target, ''HTTP/1.1'']"
      and "rstrip_chars [CHR 0x0D, newline] (line @ [CHR 0x0D, newline]) = line"
      and "\<not> startswith target ''//''"
  shows "parse_request v h (bare_request line) st0 = (True, parsed st0 line cmd target ''HTTP/1.1'')"
  unfolding parsed_def
  by (rule parse_bare_request [OF assms(1,2) http11 _ assms(3)]) simp

lemma parse_example_http09:
  assumes "split_ws line = [''GET'', target]"
      and "rstrip_chars [CHR 0x0D, newline] (line @ [CHR 0x0D, newline]) = line"
      and "\<not> startswith target ''//''"
  shows "parse_request v h (bare_request line) st0 = (True, parsed st0 line ''GET'' target ''HTTP/0.9'')"
  unfolding parsed_def
  by (rule parse_bare_request_http09 [OF assms])

lemma example_words:
  "split_ws ''GET /index.html'' = [''GET'', ''/index.html'']"
  "split_ws ''GET /index.html HTTP/1.1'' = [''GET'', ''/index.html'', ''HTTP/1.1'']"
  "split_ws ''GET /app.js HTTP/1.1'' = [''GET'', ''/app.js'', ''HTTP/1.1'']"
  "split_ws ''GET /missing.js HTTP/1.1'' = [''GET'', ''/missing.js'', ''HTTP/1.1'']"
  "split_ws ''GET /style.css HTTP/1.1'' = [''GET'', ''/style.css'', ''HTTP/1.1'']"
  "split_ws ''GET /.css HTTP/1.1'' = [''GET'', ''/.css'', ''HTTP/1.1'']"
  "split_ws ''GET /secret.txt HTTP/1.1'' = [''GET'', ''/secret.txt'', ''HTTP/1.1'']"
  "split_ws ''GET /../index.html HTTP/1.1'' = [''GET'', ''/../index.html'', ''HTTP/1.1'']"
  "split_ws ''HEAD /app.js HTTP/1.1'' = [''HEAD'', ''/app.js'', ''HTTP/1.1'']"
  by (simp_all add: split_ws_def isspace_def Let_def)

lemma example_lines:
  "rstrip_chars [CHR 0x0D, newline] (''GET /index.html'' @ [CHR 0x0D, newline]) = ''GET /index.html''"
  "rstrip_chars [CHR 0x0D, newline] (''GET /index.html HTTP/1.1'' @ [CHR 0x0D, newline]) = ''GET /index.html HTTP/1.1''"
  "rstrip_chars [CHR 0x0D, newline] (''GET /app.js HTTP/1.1'' @ [CHR 0x0D, newline]) = ''GET /app.js HTTP/1.1''"
  "rstrip_chars [CHR 0x0D, newline] (''GET /missing.js HTTP/1.1'' @ [CHR 0x0D, newline]) = ''GET /missing.js HTTP/1.1''"
  "rstrip_chars [CHR 0x0D, newline] (''GET /style.css HTTP/1.1'' @ [CHR 0x0D, newline]) = ''GET /style.css HTTP/1.1''"
  "rstrip_chars [CHR 0x0D, newline] (''GET /.css HTTP/1.1'' @ [CHR 0x0D, newline]) = ''GET /.css HTTP/1.1''"
  "rstrip_chars [CHR 0x0D, newline] (''GET /secret.txt HTTP/1.1'' @ [CHR 0x0D, newline]) = ''GET /secret.txt HTTP/1.1''"
  "rstrip_chars [CHR 0x0D, newline] (''GET /../index.html HTTP/1.1'' @ [CHR 0x0D, newline]) = ''GET /../index.html HTTP/1.1''"
  "rstrip_chars [CHR 0x0D, newline] (''HEAD /app.js HTTP/1.1'' @ [CHR 0x0D, newline]) = ''HEAD /app.js HTTP/1.1''"
  by (simp_all add: rstrip_chars_def newline_def)

lemma example_targets:
  "\<not> startswith ''/index.html'' ''//''" "\<not> startswith ''/app.js'' ''//''"
  "\<not> startswith ''/missing.js'' ''//''" "\<not> startswith ''/style.css'' ''//''"
  "\<not> startswith ''/.css'' ''//''" "\<not> startswith ''/secret.txt'' ''//''"
  "\<not> startswith ''/../index.html'' ''//''"
  by (simp_all add: startswith_def)

lemma example_paths:
  assumes "unquote h = (\<lambda>s. s)"
  shows "translate_path h ''/srv/game'' ''/index.html'' = ''/srv/game/index.html''"
    and "translate_path h ''/srv/game'' ''/app.js'' = ''/srv/game/app.js''"
    and "translate_path h ''/srv/game'' ''/missing.js'' = ''/srv/game/missing.js''"
    and "translate_path h ''/srv/game'' ''/style.css'' = ''/srv/game/style.css''"
    and "translate_path h ''/srv/game'' ''/.css'' = ''/srv/game/.css''"
    and "translate_path h ''/srv/game'' ''/secret.txt'' = ''/srv/game/secret.txt''"
    and "translate_path h ''/srv/game'' ''/../index.html'' = ''/srv/game/index.html''"
  by (simp_all add: assms translate_path_def before_first_def rstrip_def endswith_def isspace_def
        normpath_def startswith_def posix_dirname_def posix_join_def rstrip_chars_def Let_def)

lemma example_files:
  "example_fs ''/srv/game/index.html'' = Regular (Some ''<html></html>'')"
  "example_fs ''/srv/game/app.js'' = Regular (Some ''let x = 1;'')"
  "example_fs ''/srv/game/missing.js'' = Missing"
  "example_fs ''/srv/game/style.css'' = Regular (Some ''body {}'')"
  "example_fs ''/srv/game/.css'' = Regular (Some ''p {}'')"
  "example_fs ''/srv/game/secret.txt'' = Regular None"
  by (simp_all add: example_fs_def)

lemma example_hosts:
  "unquote example_host = (\<lambda>s. s)" "fs example_host = example_fs"
  "script_directory example_host = ''/srv/game''"
  "unquote other_table_host = (\<lambda>s. s)" "fs other_table_host = example_fs"
  "script_directory other_table_host = ''/srv/game''"
  "types_map other_table_host ''.js'' = Some ''text/javascript''"
  "types_map other_table_host ''.css'' = Some ''text/plain''"
  by (simp_all add: example_host_def other_table_host_def)

lemma example_directories:
  "directory (new_handler ScriptsServer h p) = script_directory h"
  "directory (new_handler SimpleServer h (simple_server_startup h p)) = script_directory h"
  by (simp_all add: new_handler_def CustomHTTPRequestHandler_init_def
        SimpleHTTPRequestHandler_init_def DIRECTORY_def cwd_simple_server_startup)

lemma bare_file_response:
  assumes "split_ws line = [cmd, target, ''HTTP/1.1'']"
      and "rstrip_chars [CHR 0x0D, newline] (line @ [CHR 0x0D, newline]) = line"
      and "\<not> startswith target ''//''" and "length line \<le> 65534"
      and "cmd = ''GET'' \<or> cmd = ''HEAD''"
      and "translate_path h (directory st0) target = fp"
      and "fs h fp = Regular (Some data)" and "\<not> endswith fp ''/''"
  shows "wfile (handle_one_request v h (bare_request line) st0) =
           wfile st0 @ [HeaderBlock (headers_buffer st0 @ ok_headers v h fp data)]
           @ (if cmd = ''GET'' \<and> data \<noteq> [] then [Body data] else [])"
    and "stderr (handle_one_request v h (bare_request line) st0) =
           stderr st0 @ [log_line v h (request_log_message line 200)]"
  using file_response [where req="bare_request line" and v=v and h=h and ?st0.0=st0
      and st="parsed st0 line cmd target ''HTTP/1.1''" and data=data]
    len_bare [OF assms(4)] parse_example [OF assms(1-3), of v h st0] assms(5-8)
  by simp_all

lemma bare_not_found_response:
  assumes "split_ws line = [cmd, target, ''HTTP/1.1'']"
      and "rstrip_chars [CHR 0x0D, newline] (line @ [CHR 0x0D, newline]) = line"
      and "\<not> startswith target ''//''" and "length line \<le> 65534"
      and "cmd = ''GET'' \<or> cmd = ''HEAD''"
      and "translate_path h (directory st0) target = fp"
      and "fs h fp = Missing \<or> fs h fp = Regular None"
  shows "wfile (handle_one_request v h (bare_request line) st0) =
           wfile st0 @ [HeaderBlock (headers_buffer st0
              @ error_headers h 404 ''File not found'' ''Nothing matches the given URI'')]
           @ (if cmd = ''GET''
                 \<and> error_page h 404 ''File not found'' ''Nothing matches the given URI'' \<noteq> []
              then [Body (error_page h 404 ''File not found'' ''Nothing matches the given URI'')]
              else [])"
    and "stderr (handle_one_request v h (bare_request line) st0) =
           stderr st0 @ [log_line v h (''code '' @ str_nat 404 @ '', message File not found''),
                         log_line v h (request_log_message line 404)]"
proof -
  have nd: "\<not> isdir h fp" and op: "open_rb h fp = None"
    using assms(7) by (auto simp add: isdir_def open_rb_def)
  show "wfile (handle_one_request v h (bare_request line) st0) =
           wfile st0 @ [HeaderBlock (headers_buffer st0
              @ error_headers h 404 ''File not found'' ''Nothing matches the given URI'')]
           @ (if cmd = ''GET''
                 \<and> error_page h 404 ''File not found'' ''Nothing matches the given URI'' \<noteq> []
              then [Body (error_page h 404 ''File not found'' ''Nothing matches the given URI'')]
              else [])"
    using not_found_response(1) [where req="bare_request line" and v=v and h=h and ?st0.0=st0
      and st="parsed st0 line cmd target ''HTTP/1.1''"]
      len_bare [OF assms(4)] parse_example [OF assms(1-3), of v h st0] assms(5,6) nd op
    by simp
  show "stderr (handle_one_request v h (bare_request line) st0) =
           stderr st0 @ [log_line v h (''code '' @ str_nat 404 @ '', message File not found''),
                         log_line v h (request_log_message line 404)]"
    using not_found_response(2) [where req="bare_request line" and v=v and h=h and ?st0.0=st0
      and st="parsed st0 line cmd target ''HTTP/1.1''"]
      len_bare [OF assms(4)] parse_example [OF assms(1-3), of v h st0] assms(5,6) nd op
    by simp
qed

lemma example_handlers:
  "directory (new_handler ScriptsServer example_host p) = ''/srv/game''"
  "directory (new_handler ScriptsServer other_table_host p) = ''/srv/game''"
  "directory (new_handler SimpleServer example_host (simple_server_startup example_host p))
     = ''/srv/game''"
  "directory (new_handler SimpleServer other_table_host (simple_server_startup other_table_host p))
     = ''/srv/game''"
  by (simp_all add: example_directories example_hosts)

lemma example_translated:
  "translate_path example_host ''/srv/game'' ''/index.html'' = ''/srv/game/index.html''"
  "translate_path example_host ''/srv/game'' ''/app.js'' = ''/srv/game/app.js''"
  "translate_path example_host ''/srv/game'' ''/missing.js'' = ''/srv/game/missing.js''"
  "translate_path example_host ''/srv/game'' ''/style.css'' = ''/srv/game/style.css''"
  "translate_path example_host ''/srv/game'' ''/.css'' = ''/srv/game/.css''"
  "translate_path example_host ''/srv/game'' ''/secret.txt'' = ''/srv/game/secret.txt''"
  "translate_path example_host ''/srv/game'' ''/../index.html'' = ''/srv/game/index.html''"
  "translate_path other_table_host ''/srv/game'' ''/app.js'' = ''/srv/game/app.js''"
  "translate_path other_table_host ''/srv/game'' ''/style.css'' = ''/srv/game/style.css''"
  by (simp_all add: example_paths example_hosts)

lemma example_found:
  "fs example_host ''/srv/game/index.html'' = Regular (Some ''<html></html>'')"
  "fs example_host ''/srv/game/app.js'' = Regular (Some ''let x = 1;'')"
  "fs example_host ''/srv/game/style.css'' = Regular (Some ''body {}'')"
  "fs example_host ''/srv/game/.css'' = Regular (Some ''p {}'')"
  "fs other_table_host ''/srv/game/app.js'' = Regular (Some ''let x = 1;'')"
  "fs other_table_host ''/srv/game/style.css'' = Regular (Some ''body {}'')"
  by (simp_all add: example_files example_hosts)

lemma example_not_found:
  "fs example_host ''/srv/game/missing.js'' = Missing \<or> fs example_host ''/srv/game/missing.js'' = Regular None"
  "fs example_host ''/srv/game/secret.txt'' = Missing \<or> fs example_host ''/srv/game/secret.txt'' = Regular None"
  by (simp_all add: example_files example_hosts)

lemma example_no_slash:
  "\<not> endswith ''/srv/game/index.html'' ''/''" "\<not> endswith ''/srv/game/app.js'' ''/''"
  "\<not> endswith ''/srv/game/style.css'' ''/''" "\<not> endswith ''/srv/game/.css'' ''/''"
  by (simp_all add: endswith_def)

lemma example_lengths:
  "length ''GET /index.html HTTP/1.1'' \<le> 65534" "length ''GET /app.js HTTP/1.1'' \<le> 65534"
  "length ''GET /missing.js HTTP/1.1'' \<le> 65534" "length ''GET /style.css HTTP/1.1'' \<le> 65534"
  "length ''GET /.css HTTP/1.1'' \<le> 65534" "length ''GET /secret.txt HTTP/1.1'' \<le> 65534"
  "length ''GET /../index.html HTTP/1.1'' \<le> 65534" "length ''HEAD /app.js HTTP/1.1'' \<le> 65534"
  "length ''GET /index.html'' \<le> 65534"
  by simp_all

lemma example_no_extension: "types_map example_host [] = None"
  by (simp add: example_host_def)

lemma guess_other_table:
  "guess_type SimpleServer other_table_host ''/srv/game/app.js'' = ''text/javascript''"
  "guess_type SimpleServer other_table_host ''/srv/game/style.css'' = ''text/plain''"
  "guess_type ScriptsServer example_host ''/srv/game/.css'' = ''application/octet-stream''"
  by (simp_all add: guess_type_def mimetypes_db_def base_guess_type_def mimetypes_guess_type_def
        CustomHTTPRequestHandler_guess_type_def endswith_def add_type_def
        splitext_def extensions_map_def suffix_map_def encodings_map_def example_hosts
        example_no_extension lower_def lower_char_def Let_def)

subsection \<open>JavaScript and style sheets\<close>

text \<open>
  Claim C2, as the code has it. A handler of either script has accepted a GET or HEAD
  request with a version other than HTTP/0.9; the request path translates to a readable
  regular file whose path ends in \<^verbatim>\<open>.js\<close>, and the browser-cache test does not apply.
  Then the response is one header block with status 200 whose only Content-Type field is
  \<^verbatim>\<open>application/javascript\<close> under scripts/server.py, whatever the host's MIME table
  holds, and under simple-server.py, which overrides nothing, what the inherited
  \<^verbatim>\<open>guess_type\<close> infers from the host's table.
\<close>

theorem js_content_type:
  assumes "length (raw_requestline req) \<le> 65536"
      and "parse_request v h req (new_handler v h p) = (True, st)"
      and "command st = Some ''GET'' \<or> command st = Some ''HEAD''"
      and "request_version st \<noteq> ''HTTP/0.9''"
      and "fs h (translate_path h (directory st) (path st)) = Regular (Some data)"
      and "endswith (translate_path h (directory st) (path st)) ''.js''"
      and "\<not> use_browser_cache h (translate_path h (directory st) (path st)) st"
  shows "map status_codes (header_blocks (wfile (handle_one_request v h req (new_handler v h p))))
           = [[200]]
       \<and> map (header_values ''Content-Type'')
             (header_blocks (wfile (handle_one_request v h req (new_handler v h p))))
           = [[case v of
                 ScriptsServer \<Rightarrow> ''application/javascript''
               | SimpleServer \<Rightarrow>
                   base_guess_type (types_map h) (translate_path h (directory st) (path st))]]"
  unfolding file_response(1) [OF assms(1-5) endswith_js_not_slash [OF assms(6)] assms(7)]
  by (simp add: new_handler_fresh header_blocks_append header_blocks_simps block_status
        block_content_type guess_type_js [OF assms(6)])

text \<open>The theorem of claim C2 at \<^verbatim>\<open>GET /app.js HTTP/1.1\<close>, sent to scripts/server.py on a
  host whose MIME table gives \<^verbatim>\<open>.js\<close> another type.\<close>

theorem js_content_type_witness:
  "map status_codes (header_blocks (wfile (handle_one_request ScriptsServer other_table_host
      (bare_request ''GET /app.js HTTP/1.1'')
      (new_handler ScriptsServer other_table_host example_process)))) = [[200]]
   \<and> map (header_values ''Content-Type'') (header_blocks (wfile (handle_one_request ScriptsServer
      other_table_host (bare_request ''GET /app.js HTTP/1.1'')
      (new_handler ScriptsServer other_table_host example_process)))) = [[''application/javascript'']]"
  using js_content_type [where req="bare_request ''GET /app.js HTTP/1.1''" and v=ScriptsServer
      and h=other_table_host and p=example_process
      and st="parsed (new_handler ScriptsServer other_table_host example_process)
         ''GET /app.js HTTP/1.1'' ''GET'' ''/app.js'' ''HTTP/1.1''" and data="''let x = 1;''"]
  by (simp add: len_bare parse_example [OF example_words(3) example_lines(3) example_targets(2)]
        example_handlers example_translated example_found endswith_def)

text \<open>
  Claim C2 as stated fails twice. On a host whose MIME table gives \<^verbatim>\<open>.js\<close> the type
  \<^verbatim>\<open>text/javascript\<close>, simple-server.py answers \<^verbatim>\<open>GET /app.js HTTP/1.1\<close> with that
  type; and scripts/server.py answers a request for a \<^verbatim>\<open>.js\<close> file that does not exist
  with the content type of the error page.
\<close>

theorem simple_server_js_type_follows_host_table:
  "map (header_values ''Content-Type'') (header_blocks (wfile (handle_one_request SimpleServer
      other_table_host (bare_request ''GET /app.js HTTP/1.1'')
      (new_handler SimpleServer other_table_host
         (simple_server_startup other_table_host example_process))))) = [[''text/javascript'']]
   \<and> map (header_values ''Content-Type'') (header_blocks (wfile (handle_one_request ScriptsServer
      example_host (bare_request ''GET /missing.js HTTP/1.1'')
      (new_handler ScriptsServer example_host example_process)))) = [[''text/html;charset=utf-8'']]"
  unfolding
    bare_file_response(1) [OF example_words(3) example_lines(3) example_targets(2)
      example_lengths(2) disjI1 [OF refl]
      example_translated(8) [folded example_handlers(4) [of example_process]]
      example_found(5) example_no_slash(2)]
    bare_not_found_response(1) [OF example_words(4) example_lines(4) example_targets(3)
      example_lengths(3) disjI1 [OF refl]
      example_translated(3) [folded example_handlers(1) [of example_process]]
      example_not_found(1)]
  by (simp add: new_handler_fresh header_blocks_append header_blocks_simps block_content_type
        guess_other_table error_content_type_def)

text \<open>
  Claim C3, as the code has it. Under the hypotheses of the previous theorem, but for a
  file whose name has the extension \<^verbatim>\<open>.css\<close> as \<^verbatim>\<open>posixpath.splitext\<close> finds it, the
  only Content-Type field of the 200 response is \<^verbatim>\<open>text/css\<close> under scripts/server.py,
  which registers that type, whatever the host's MIME table holds; under simple-server.py
  it is the entry of the host's table for \<^verbatim>\<open>.css\<close>, and \<^verbatim>\<open>application/octet-stream\<close>
  where the table has none.
\<close>

theorem css_content_type:
  assumes "length (raw_requestline req) \<le> 65536"
      and "parse_request v h req (new_handler v h p) = (True, st)"
      and "command st = Some ''GET'' \<or> command st = Some ''HEAD''"
      and "request_version st \<noteq> ''HTTP/0.9''"
      and "fs h (translate_path h (directory st) (path st)) = Regular (Some data)"
      and "snd (splitext (translate_path h (directory st) (path st))) = ''.css''"
      and "\<not> use_browser_cache h (translate_path h (directory st) (path st)) st"
  shows "map status_codes (header_blocks (wfile (handle_one_request v h req (new_handler v h p))))
           = [[200]]
       \<and> map (header_values ''Content-Type'')
             (header_blocks (wfile (handle_one_request v h req (new_handler v h p))))
           = [[case v of
                 ScriptsServer \<Rightarrow> ''text/css''
               | SimpleServer \<Rightarrow>
                   (case types_map h ''.css'' of
                      Some g \<Rightarrow> (if g \<noteq> [] then g else ''application/octet-stream'')
                    | None \<Rightarrow> ''application/octet-stream'')]]"
  unfolding file_response(1) [OF assms(1-5) css_not_js(2) [OF assms(6)] assms(7)]
  by (simp add: new_handler_fresh header_blocks_append header_blocks_simps block_status
        block_content_type guess_type_css [OF assms(6)])

text \<open>The theorem of claim C3 at \<^verbatim>\<open>GET /style.css HTTP/1.1\<close>, sent to scripts/server.py on
  a host whose MIME table gives \<^verbatim>\<open>.css\<close> another type.\<close>

theorem css_content_type_witness:
  "map status_codes (header_blocks (wfile (handle_one_request ScriptsServer other_table_host
      (bare_request ''GET /style.css HTTP/1.1'')
      (new_handler ScriptsServer other_table_host example_process)))) = [[200]]
   \<and> map (header_values ''Content-Type'') (header_blocks (wfile (handle_one_request ScriptsServer
      other_table_host (bare_request ''GET /style.css HTTP/1.1'')
      (new_handler ScriptsServer other_table_host example_process)))) = [[''text/css'']]"
  using css_content_type [where req="bare_request ''GET /style.css HTTP/1.1''" and v=ScriptsServer
      and h=other_table_host and p=example_process
      and st="parsed (new_handler ScriptsServer other_table_host example_process)
         ''GET /style.css HTTP/1.1'' ''GET'' ''/style.css'' ''HTTP/1.1''" and data="''body {}''"]
  by (simp add: len_bare parse_example [OF example_words(5) example_lines(5) example_targets(4)]
        example_handlers example_translated example_found splitext_def Let_def)

text \<open>
  Claim C3 as stated fails twice. A file named \<^verbatim>\<open>.css\<close> has no extension for
  \<^verbatim>\<open>splitext\<close>, so scripts/server.py serves it as \<^verbatim>\<open>application/octet-stream\<close>; and on
  a host whose MIME table gives \<^verbatim>\<open>.css\<close> the type \<^verbatim>\<open>text/plain\<close>, simple-server.py
  serves \<^verbatim>\<open>style.css\<close> with that type.
\<close>

theorem css_type_not_always_text_css:
  "map (header_values ''Content-Type'') (header_blocks (wfile (handle_one_request ScriptsServer
      example_host (bare_request ''GET /.css HTTP/1.1'')
      (new_handler ScriptsServer example_host example_process)))) = [[''application/octet-stream'']]
   \<and> map (header_values ''Content-Type'') (header_blocks (wfile (handle_one_request SimpleServer
      other_table_host (bare_request ''GET /style.css HTTP/1.1'')
      (new_handler SimpleServer other_table_host
         (simple_server_startup other_table_host example_process))))) = [[''text/plain'']]"
  unfolding
    bare_file_response(1) [OF example_words(6) example_lines(6) example_targets(5)
      example_lengths(5) disjI1 [OF refl]
      example_translated(5) [folded example_handlers(1) [of example_process]]
      example_found(4) example_no_slash(4)]
    bare_file_response(1) [OF example_words(5) example_lines(5) example_targets(4)
      example_lengths(4) disjI1 [OF refl]
      example_translated(9) [folded example_handlers(4) [of example_process]]
      example_found(6) example_no_slash(3)]
  by (simp add: new_handler_fresh header_blocks_append header_blocks_simps block_content_type
        guess_other_table)

subsection \<open>Unreadable files\<close>

text \<open>
  Claim C6, as the code has it. A handler of either script has accepted a GET request
  with a version other than HTTP/0.9 whose path translates to a regular file that cannot
  be read. \<^verbatim>\<open>send_head\<close> treats every OSError of \<^verbatim>\<open>open\<close> alike, so the response is one
  header block with status 404. The loop of \<^verbatim>\<open>serve_forever\<close> goes on: after this
  connection and any further connections the call has neither returned nor raised.
\<close>

theorem unreadable_file_is_404:
  assumes "length (raw_requestline req) \<le> 65536"
      and "parse_request v h req (new_handler v h p) = (True, st)"
      and "command st = Some ''GET''"
      and "request_version st \<noteq> ''HTTP/0.9''"
      and "fs h (translate_path h (directory st) (path st)) = Regular None"
  shows "map status_codes (header_blocks (wfile (handle_one_request v h req (new_handler v h p))))
           = [[404]]
       \<and> snd (serve_forever v h (Connection [req] # map Connection cs) q) = None"
proof -
  have c: "command st = Some ''GET'' \<or> command st = Some ''HEAD''"
    using assms(3) by simp
  show ?thesis
    unfolding not_found_response(1) [OF assms(1,2) c assms(4) isdir_Regular [OF assms(5)]
        open_rb_Regular [OF assms(5)]]
    by (simp add: new_handler_fresh header_blocks_append header_blocks_simps block_status
          serve_forever_all_connections)
qed

text \<open>The theorem of claim C6 at \<^verbatim>\<open>GET /secret.txt HTTP/1.1\<close>, sent to scripts/server.py,
  with one more connection after it.\<close>

theorem unreadable_file_is_404_witness:
  "map status_codes (header_blocks (wfile (handle_one_request ScriptsServer example_host
      (bare_request ''GET /secret.txt HTTP/1.1'')
      (new_handler ScriptsServer example_host example_process)))) = [[404]]
   \<and> snd (serve_forever ScriptsServer example_host
          (Connection [bare_request ''GET /secret.txt HTTP/1.1'']
             # map Connection [[bare_request ''GET /index.html HTTP/1.1'']]) example_process) = None"
  using unreadable_file_is_404 [where req="bare_request ''GET /secret.txt HTTP/1.1''"
      and v=ScriptsServer and h=example_host and p=example_process
      and st="parsed (new_handler ScriptsServer example_host example_process)
         ''GET /secret.txt HTTP/1.1'' ''GET'' ''/secret.txt'' ''HTTP/1.1''"
      and cs="[[bare_request ''GET /index.html HTTP/1.1'']]" and q=example_process]
  by (simp add: len_bare parse_example [OF example_words(7) example_lines(7) example_targets(6)]
        example_handlers example_translated example_hosts example_files)

text \<open>
  Claim C6 as stated fails: the unreadable file \<^verbatim>\<open>secret.txt\<close> of the example host is
  answered with status 404, not 403.
\<close>

theorem unreadable_file_status_is_not_403:
  "map status_codes (header_blocks (wfile (handle_one_request SimpleServer example_host
      (bare_request ''GET /secret.txt HTTP/1.1'')
      (new_handler SimpleServer example_host
         (simple_server_startup example_host example_process))))) = [[404]]"
  unfolding
    bare_not_found_response(1) [OF example_words(7) example_lines(7) example_targets(6)
      example_lengths(6) disjI1 [OF refl]
      example_translated(6) [folded example_handlers(3) [of example_process]]
      example_not_found(2)]
  by (simp add: new_handler_fresh header_blocks_append header_blocks_simps block_status)

subsection \<open>Requests without headers in the answer, and paths with dot-dot\<close>

lemma handle_single:
  "wfile (handle v h [req] st) = wfile (handle_one_request v h req (st\<lparr>close_connection := True\<rparr>))"
  by (simp add: handle_def Let_def)

lemma new_handler_closed: "(new_handler v h p)\<lparr>close_connection := True\<rparr> = new_handler v h p"
  by (cases v) (simp_all add: new_handler_def CustomHTTPRequestHandler_init_def
        SimpleHTTPRequestHandler_init_def)




subsection \<open>The log on standard error\<close>

lemma send_header_fields [simp]:
  "stderr (send_header k x st) = stderr st"
  "requestline (send_header k x st) = requestline st"
  "command (send_header k x st) = command st"
  "wfile (send_header k x st) = wfile st"
  "request_version (send_header k x st) = request_version st"
  by (simp_all add: send_header_def Let_def)

lemma send_response_only_fields [simp]:
  "stderr (send_response_only code m st) = stderr st"
  "requestline (send_response_only code m st) = requestline st"
  "command (send_response_only code m st) = command st"
  "wfile (send_response_only code m st) = wfile st"
  "request_version (send_response_only code m st) = request_version st"
  by (simp_all add: send_response_only_def Let_def)

lemma end_headers_fields [simp]:
  "stderr (end_headers v st) = stderr st"
  "requestline (end_headers v st) = requestline st"
  "command (end_headers v st) = command st"
  "request_version (end_headers v st) = request_version st"
  "bodies (wfile (end_headers v st)) = bodies (wfile st)"
  by (simp_all add: end_headers_eq bodies_def)

lemma send_response_fields [simp]:
  "stderr (send_response v h code m st) =
     stderr st @ [log_line v h (request_log_message (requestline st) code)]"
  "requestline (send_response v h code m st) = requestline st"
  "command (send_response v h code m st) = command st"
  "wfile (send_response v h code m st) = wfile st"
  "request_version (send_response v h code m st) = request_version st"
  by (simp_all add: send_response_def log_request_def log_message_eq request_log_message_def Let_def)

lemma stderr_send_error:
  "stderr (send_error v h code (Some m) e st) =
     stderr st @ [log_line v h (''code '' @ str_nat code @ '', message '' @ m),
                  log_line v h (request_log_message (requestline st) code)]"
  by (simp add: send_error_def log_error_def log_message_eq Let_def split_def)

lemma stderr_serve_file:
  "stderr (snd (serve_file v h p st)) =
     stderr st @
       (if open_rb h p \<noteq> None \<and> \<not> endswith p ''/''
        then [log_line v h (request_log_message (requestline st)
                (if use_browser_cache h p st then 304 else 200))]
        else [log_line v h (''code '' @ str_nat 404 @ '', message File not found''),
              log_line v h (request_log_message (requestline st) 404)])"
  by (auto simp add: serve_file_def stderr_send_error Let_def split: option.splits)

lemma stderr_do_GET: "stderr (do_GET v h st) = stderr (snd (send_head v h st))"
  by (cases "send_head v h st") (auto simp add: do_GET_def split: option.splits)


lemma str_nat_values: "str_nat 200 = ''200''" "str_nat 404 = ''404''"
  by code_simp+

lemma example_clock:
  "log_date_time_string example_host = ''04/Nov/2026 12:00:00''"
  "client_address example_host = ''127.0.0.1''"
  by (simp_all add: example_host_def)

lemma example_log_message:
  "translate_control ([dquote] @ ''GET /index.html HTTP/1.1'' @ [dquote] @ '' 200 -'')
     = [dquote] @ ''GET /index.html HTTP/1.1'' @ [dquote] @ '' 200 -''"
  by code_simp



subsection \<open>HEAD\<close>

lemma command_update_commutes:
  "send_header k x (st\<lparr>command := c\<rparr>) = (send_header k x st)\<lparr>command := c\<rparr>"
  "send_response_only code m (st\<lparr>command := c\<rparr>) = (send_response_only code m st)\<lparr>command := c\<rparr>"
  "log_message v h msg (st\<lparr>command := c\<rparr>) = (log_message v h msg st)\<lparr>command := c\<rparr>"
  "end_headers v (st\<lparr>command := c\<rparr>) = (end_headers v st)\<lparr>command := c\<rparr>"
  by (simp_all add: send_header_def send_response_only_def log_message_eq end_headers_eq Let_def)

lemma send_response_commutes:
  "send_response v h code m (st\<lparr>command := c\<rparr>) = (send_response v h code m st)\<lparr>command := c\<rparr>"
  by (simp add: send_response_def log_request_def command_update_commutes Let_def)

lemma header_blocks_body [simp]: "header_blocks (cs @ [Body b]) = header_blocks cs"
  by (simp add: header_blocks_def)

lemma send_error_any_command:
  "header_blocks (wfile (send_error v h code m e (st\<lparr>command := c\<rparr>))) =
   header_blocks (wfile (send_error v h code m e st))"
  by (simp add: send_error_def log_error_def command_update_commutes send_response_commutes
        Let_def split_def)

lemma use_browser_cache_command [simp]:
  "use_browser_cache h p (st\<lparr>command := c\<rparr>) = use_browser_cache h p st"
  by (simp add: use_browser_cache_def split: option.splits)

lemma serve_file_any_command:
  "header_blocks (wfile (snd (serve_file v h p (st\<lparr>command := c\<rparr>)))) =
   header_blocks (wfile (snd (serve_file v h p st)))"
  by (simp add: serve_file_def send_error_any_command command_update_commutes
        send_response_commutes Let_def split: option.splits)

lemma list_directory_any_command:
  "header_blocks (wfile (snd (list_directory v h p (st\<lparr>command := c\<rparr>)))) =
   header_blocks (wfile (snd (list_directory v h p st)))"
  by (simp add: list_directory_def send_error_any_command command_update_commutes
        send_response_commutes Let_def split: option.splits)

lemma send_head_any_command:
  "header_blocks (wfile (snd (send_head v h (st\<lparr>command := c\<rparr>)))) =
   header_blocks (wfile (snd (send_head v h st)))"
  by (simp add: send_head_def serve_file_any_command list_directory_any_command
        command_update_commutes send_response_commutes Let_def)

lemma header_blocks_do_GET:
  "header_blocks (wfile (do_GET v h st)) = header_blocks (wfile (snd (send_head v h st)))"
  by (cases "send_head v h st") (auto simp add: do_GET_def split: option.splits)

lemma bodies_send_error_HEAD:
  "command st = Some ''HEAD'' \<Longrightarrow> bodies (wfile (send_error v h code m e st)) = bodies (wfile st)"
  by (simp add: send_error_def log_error_def log_message_eq Let_def split_def)

lemma bodies_serve_file_HEAD:
  "command st = Some ''HEAD'' \<Longrightarrow> bodies (wfile (snd (serve_file v h p st))) = bodies (wfile st)"
  by (simp add: serve_file_def bodies_send_error_HEAD Let_def split: option.splits)

lemma bodies_list_directory_HEAD:
  "command st = Some ''HEAD'' \<Longrightarrow> bodies (wfile (snd (list_directory v h p st))) = bodies (wfile st)"
  by (simp add: list_directory_def bodies_send_error_HEAD Let_def split: option.splits)

lemma bodies_send_head_HEAD:
  "command st = Some ''HEAD'' \<Longrightarrow> bodies (wfile (snd (send_head v h st))) = bodies (wfile st)"
  by (simp add: send_head_def bodies_serve_file_HEAD bodies_list_directory_HEAD Let_def)



end
